theory Spec2Isabelle
  imports Main "HOL-Library.Sublist"
begin

section \<open>Python values\<close>

text \<open>
  The program is one Python file, \<^verbatim>\<open>tc.py\<close>. Python strings are held as lists of
  characters (for a character outside ASCII, its UTF-8 bytes: every operation below
  looks only for ASCII delimiters, which no multi-byte sequence contains).
  An exception that reaches the caller is a value of \<open>py_exception\<close>; a function
  that can raise returns \<open>py_exception + 'a\<close>. Where the program calls its libraries
  (\<^verbatim>\<open>str.format\<close>, \<^verbatim>\<open>urljoin\<close>, \<^verbatim>\<open>argparse\<close>, \<^verbatim>\<open>requests\<close>), the model follows
  CPython 3.11, where a dictionary keeps the order in which its keys were inserted.
\<close>

datatype py_exception =
    ValueError
  | KeyError
  | IndexError
  | AttributeError
  | TypeError
  | RequestException
  | Unmodelled

text \<open>
  What \<^verbatim>\<open>resp.json()\<close> can return, and what \<^verbatim>\<open>print\<close> is given: \<open>PNone\<close> is
  Python's \<^verbatim>\<open>None\<close> (JSON \<^verbatim>\<open>null\<close>), a dictionary keeps its items in
  insertion order. A float is kept as the text of its literal.
\<close>

datatype pyval =
    PNone
  | PBool bool
  | PInt int
  | PFloat string
  | PStr string
  | PList "pyval list"
  | PDict "(string \<times> pyval) list"

definition str_bool :: "bool \<Rightarrow> string" where
  "str_bool b = (if b then ''True'' else ''False'')"

definition isascii :: "char \<Rightarrow> bool" where
  "isascii c = ((of_char c :: nat) < 128)"

definition ascii_isalpha :: "char \<Rightarrow> bool" where
  "ascii_isalpha c =
     (let n = (of_char c :: nat) in (65 \<le> n \<and> n \<le> 90) \<or> (97 \<le> n \<and> n \<le> 122))"

definition lower_char :: "char \<Rightarrow> char" where
  "lower_char c =
     (let n = (of_char c :: nat) in if 65 \<le> n \<and> n \<le> 90 then char_of (n + 32) else c)"

text \<open>\<^verbatim>\<open>str.lower()\<close>, on the ASCII letters (the program lowers \<^verbatim>\<open>str(personal)\<close> and
  the library lowers a URL scheme, both ASCII).\<close>

definition lower :: "string \<Rightarrow> string" where
  "lower s = map lower_char s"

section \<open>str.format\<close>

text \<open>
  \<^verbatim>\<open>template.format(*args, **kw)\<close>, read off the template one character at a time.
  The fourth argument is the replacement field being read, if any; the third counts the
  automatically numbered fields \<^verbatim>\<open>{}\<close> already filled. \<^verbatim>\<open>{{\<close> and \<^verbatim>\<open>}}\<close> are the
  escapes, a lone brace is a ValueError, a keyword that was not passed a KeyError.
  A substituted value is copied as it is and never read for fields again.
  The program's templates use plain keyword fields and \<^verbatim>\<open>{}\<close> only; a field with a
  conversion, a format spec, an attribute, an index or a number is \<open>Unmodelled\<close>.
\<close>

fun format_scan ::
  "string list \<Rightarrow> (string \<times> string) list \<Rightarrow> nat \<Rightarrow> string option \<Rightarrow> string
     \<Rightarrow> py_exception + string" where
  "format_scan args kw n None [] = Inr []"
| "format_scan args kw n (Some name) [] = Inl ValueError"
| "format_scan args kw n None [c] =
     (if c = CHR ''{'' \<or> c = CHR ''}'' then Inl ValueError else Inr [c])"
| "format_scan args kw n None (c # d # cs) =
     (if c = CHR ''{'' then
        (if d = CHR ''{'' then map_sum id ((#) c) (format_scan args kw n None cs)
         else format_scan args kw n (Some []) (d # cs))
      else if c = CHR ''}'' then
        (if d = CHR ''}'' then map_sum id ((#) c) (format_scan args kw n None cs)
         else Inl ValueError)
      else map_sum id ((#) c) (format_scan args kw n None (d # cs)))"
| "format_scan args kw n (Some name) (c # cs) =
     (if c = CHR ''}'' then
        (if name = [] then
           (if n < length args
            then map_sum id ((@) (args ! n)) (format_scan args kw (Suc n) None cs)
            else Inl IndexError)
         else
           (case map_of kw name of
              None \<Rightarrow> Inl KeyError
            | Some v \<Rightarrow> map_sum id ((@) v) (format_scan args kw n None cs)))
      else if c = CHR ''{'' then Inl ValueError
      else if c \<in> set ''!:.['' \<or> (name = [] \<and> c \<in> set ''0123456789'') then Inl Unmodelled
      else format_scan args kw n (Some (name @ [c])) cs)"

definition py_format ::
  "string \<Rightarrow> string list \<Rightarrow> (string \<times> string) list \<Rightarrow> py_exception + string" where
  "py_format template args kw = format_scan args kw 0 None template"

section \<open>The constants of tc.py\<close>

definition headers :: "(string \<times> string) list" where
  "headers = [(''Accept'', ''application/json''), (''Content-Type'', ''application/xml'')]"

definition requestbase :: string where
  "requestbase = ''\<newline><build personal=\"{personal}\" branchName=\"{branch}\">\<newline>  <buildType id=\"{buildid}\"/>\<newline>  <comment><text>Triggered from CLI</text></comment>\<newline>  <properties>\<newline>    <property name=\"remote\" value=\"{remote}\"/>\<newline>    <property name=\"branch\" value=\"{branch}\"/>{props}\<newline>  </properties>\<newline></build>\<newline>''"

definition requestpropertybase :: string where
  "requestpropertybase = ''\<newline>    <property name=\"{name}\" value=\"{value}\"/>''"

definition neo4jlinux_id :: string where
  "neo4jlinux_id = ''JonasHaRequests_Neo4jCustom''"

definition har_id :: string where
  "har_id = ''JonasHaRequests_HarBranchArtifacts''"

definition linux_jdks :: "string list" where
  "linux_jdks = [''openjdk-8'', ''openjdk-7'', ''oracle-jdk-8'', ''oracle-jdk-7'',
                 ''ibmjdk-8'', ''ibmjdk-7'']"

section \<open>The request builder\<close>

text \<open>
  \<^verbatim>\<open>dict_as_properties(props)\<close>: the loop over \<^verbatim>\<open>props.items()\<close>, with \<^verbatim>\<open>xml\<close> as the
  accumulator. The dictionary is the list of its items in insertion order.
\<close>

fun properties_loop :: "string \<Rightarrow> (string \<times> string) list \<Rightarrow> py_exception + string" where
  "properties_loop xml [] = Inr xml"
| "properties_loop xml ((k, v) # items) =
     (case py_format requestpropertybase [] [(''name'', k), (''value'', v)] of
        Inl e \<Rightarrow> Inl e
      | Inr p \<Rightarrow> properties_loop (xml @ p) items)"

definition dict_as_properties :: "(string \<times> string) list \<Rightarrow> py_exception + string" where
  "dict_as_properties props = properties_loop [] props"

text \<open>\<^verbatim>\<open>request_xml(buildid, personal, branch, remote, props=None)\<close>.\<close>

definition request_xml ::
  "string \<Rightarrow> bool \<Rightarrow> string \<Rightarrow> string \<Rightarrow> string option \<Rightarrow> py_exception + string" where
  "request_xml buildid personal branch remote props =
     (let props = (case props of None \<Rightarrow> [] | Some p \<Rightarrow> p) in
      py_format requestbase []
        [(''buildid'', buildid), (''remote'', remote), (''branch'', branch),
         (''props'', props), (''personal'', lower (str_bool personal))])"

text \<open>\<^verbatim>\<open>tc_mvn_args(original)\<close>.\<close>

definition tc_mvn_args :: "string \<Rightarrow> string" where
  "tc_mvn_args original =
     ''-DfailIfNoTests=false -Dmaven.test.failure.ignore=true --show-version '' @ original"

section \<open>urllib.parse.urljoin\<close>

text \<open>
  \<^verbatim>\<open>send_request\<close> forms its URL with \<^verbatim>\<open>urlparse.urljoin\<close>, a function of Python's
  standard library (\<^verbatim>\<open>urllib/parse.py\<close> of CPython 3.11). It is embedded here function
  by function. Two checks of \<^verbatim>\<open>urlsplit\<close> reach into other libraries and are taken
  as parameters: \<open>check_bracketed_host\<close> (the \<^verbatim>\<open>ipaddress\<close> check of a host in square
  brackets) and \<open>checknetloc_nfkc\<close> (the NFKC check of a host with a character outside
  ASCII); each says whether the check passes.
\<close>

definition uses_relative :: "string list" where
  "uses_relative = ['''', ''ftp'', ''http'', ''gopher'', ''nntp'', ''imap'',
                    ''wais'', ''file'', ''https'', ''shttp'', ''mms'',
                    ''prospero'', ''rtsp'', ''rtsps'', ''rtspu'', ''sftp'',
                    ''svn'', ''svn+ssh'', ''ws'', ''wss'']"

definition uses_netloc :: "string list" where
  "uses_netloc = ['''', ''ftp'', ''http'', ''gopher'', ''nntp'', ''telnet'',
                  ''imap'', ''wais'', ''file'', ''mms'', ''https'', ''shttp'',
                  ''snews'', ''prospero'', ''rtsp'', ''rtsps'', ''rtspu'', ''rsync'',
                  ''svn'', ''svn+ssh'', ''sftp'', ''nfs'', ''git'', ''git+ssh'',
                  ''ws'', ''wss'']"

definition uses_params :: "string list" where
  "uses_params = ['''', ''ftp'', ''hdl'', ''prospero'', ''http'', ''imap'',
                  ''https'', ''shttp'', ''rtsp'', ''rtsps'', ''rtspu'', ''sip'',
                  ''sips'', ''mms'', ''sftp'', ''tel'']"

definition scheme_chars :: string where
  "scheme_chars = ''abcdefghijklmnopqrstuvwxyzABCDEFGHIJKLMNOPQRSTUVWXYZ0123456789+-.''"

definition c0_control_or_space :: "char \<Rightarrow> bool" where
  "c0_control_or_space c = ((of_char c :: nat) \<le> 32)"

definition unsafe_url_byte :: "char \<Rightarrow> bool" where
  "unsafe_url_byte c = (c = CHR 0x09 \<or> c = CHR 0x0D \<or> c = CHR 0x0A)"

text \<open>\<^verbatim>\<open>s.split(c, 1)\<close> for a string that holds \<open>c\<close>, and the test \<^verbatim>\<open>c in s\<close>
  before it: the text before the first \<open>c\<close> and the text after it.\<close>

fun split_once :: "char \<Rightarrow> string \<Rightarrow> (string \<times> string) option" where
  "split_once c [] = None"
| "split_once c (x # xs) =
     (if x = c then Some ([], xs)
      else (case split_once c xs of None \<Rightarrow> None | Some (a, b) \<Rightarrow> Some (x # a, b)))"

text \<open>\<^verbatim>\<open>s.split(c)\<close>: every piece between two \<open>c\<close>, the empty ones too.\<close>

fun split_all :: "char \<Rightarrow> string \<Rightarrow> string list" where
  "split_all c [] = [[]]"
| "split_all c (x # xs) =
     (if x = c then [] # split_all c xs
      else (case split_all c xs of [] \<Rightarrow> [[x]] | p # ps \<Rightarrow> (x # p) # ps))"

text \<open>\<^verbatim>\<open>sep.join(parts)\<close>.\<close>

fun join :: "string \<Rightarrow> string list \<Rightarrow> string" where
  "join sep [] = []"
| "join sep [p] = p"
| "join sep (p # q # ps) = p @ sep @ join sep (q # ps)"

text \<open>\<^verbatim>\<open>_splitnetloc(url, 2)\<close>: the text from index 2 to the first of \<^verbatim>\<open>/?#\<close>, and the
  rest.\<close>

definition splitnetloc :: "string \<Rightarrow> string \<times> string" where
  "splitnetloc url =
     (let body = drop 2 url; dom = takeWhile (\<lambda>c. c \<notin> set ''/?#'') body
      in (dom, drop (length dom) body))"

record urllib =
  check_bracketed_host :: "string \<Rightarrow> bool"
  checknetloc_nfkc :: "string \<Rightarrow> bool"

definition bracketed_host :: "string \<Rightarrow> string" where
  "bracketed_host netloc =
     takeWhile (\<lambda>c. c \<noteq> CHR '']'') (drop 1 (dropWhile (\<lambda>c. c \<noteq> CHR ''['') netloc))"

definition urlsplit ::
  "urllib \<Rightarrow> string \<Rightarrow> string \<Rightarrow> py_exception + (string \<times> string \<times> string \<times> string \<times> string)" where
  "urlsplit lib url0 scheme0 =
     (let url = filter (\<lambda>c. \<not> unsafe_url_byte c) (dropWhile c0_control_or_space url0);
          scheme = filter (\<lambda>c. \<not> unsafe_url_byte c)
                     (rev (dropWhile c0_control_or_space
                        (rev (dropWhile c0_control_or_space scheme0))));
          (scheme, url) =
            (case split_once CHR '':'' url of
               None \<Rightarrow> (scheme, url)
             | Some (pre, post) \<Rightarrow>
                 if pre \<noteq> [] \<and> isascii (hd url) \<and> ascii_isalpha (hd url)
                    \<and> list_all (\<lambda>c. c \<in> set scheme_chars) pre
                 then (lower pre, post) else (scheme, url));
          (netloc, url) = (if take 2 url = ''//'' then splitnetloc url else ([], url))
      in
      if (CHR ''['' \<in> set netloc \<and> CHR '']'' \<notin> set netloc)
         \<or> (CHR '']'' \<in> set netloc \<and> CHR ''['' \<notin> set netloc) then Inl ValueError
      else if CHR ''['' \<in> set netloc \<and> CHR '']'' \<in> set netloc
              \<and> \<not> check_bracketed_host lib (bracketed_host netloc) then Inl ValueError
      else
        (let (url, fragment) =
               (case split_once CHR ''#'' url of None \<Rightarrow> (url, []) | Some p \<Rightarrow> p);
             (url, query) =
               (case split_once CHR ''?'' url of None \<Rightarrow> (url, []) | Some p \<Rightarrow> p)
         in
         if netloc \<noteq> [] \<and> \<not> list_all isascii netloc \<and> \<not> checknetloc_nfkc lib netloc
         then Inl ValueError
         else Inr (scheme, netloc, url, query, fragment)))"

text \<open>\<^verbatim>\<open>_splitparams(url)\<close>, called for a \<open>url\<close> that holds a semicolon: the
  parameters start at the first semicolon of the last path segment.\<close>

definition splitparams :: "string \<Rightarrow> string \<times> string" where
  "splitparams url =
     (if CHR ''/'' \<in> set url then
        (let seg = rev (takeWhile (\<lambda>c. c \<noteq> CHR ''/'') (rev url));
             dir = take (length url - length seg) url
         in case split_once CHR '';'' seg of
              None \<Rightarrow> (url, [])
            | Some (a, b) \<Rightarrow> (dir @ a, b))
      else (case split_once CHR '';'' url of None \<Rightarrow> (url, []) | Some p \<Rightarrow> p))"

definition urlparse ::
  "urllib \<Rightarrow> string \<Rightarrow> string
     \<Rightarrow> py_exception + (string \<times> string \<times> string \<times> string \<times> string \<times> string)" where
  "urlparse lib url scheme =
     (case urlsplit lib url scheme of
        Inl e \<Rightarrow> Inl e
      | Inr (scheme, netloc, url, query, fragment) \<Rightarrow>
          if scheme \<in> set uses_params \<and> CHR '';'' \<in> set url
          then (let (url, params) = splitparams url
                in Inr (scheme, netloc, url, params, query, fragment))
          else Inr (scheme, netloc, url, [], query, fragment))"

definition urlunsplit :: "string \<Rightarrow> string \<Rightarrow> string \<Rightarrow> string \<Rightarrow> string \<Rightarrow> string" where
  "urlunsplit scheme netloc url0 query fragment =
     (let url =
            (if netloc \<noteq> [] \<or> (scheme \<noteq> [] \<and> scheme \<in> set uses_netloc) \<or> take 2 url0 = ''//''
             then ''//'' @ netloc @ (if url0 \<noteq> [] \<and> take 1 url0 \<noteq> ''/'' then ''/'' @ url0 else url0)
             else url0);
          url = (if scheme \<noteq> [] then scheme @ '':'' @ url else url);
          url = (if query \<noteq> [] then url @ ''?'' @ query else url)
      in if fragment \<noteq> [] then url @ ''#'' @ fragment else url)"

definition urlunparse ::
  "string \<Rightarrow> string \<Rightarrow> string \<Rightarrow> string \<Rightarrow> string \<Rightarrow> string \<Rightarrow> string" where
  "urlunparse scheme netloc url params query fragment =
     urlunsplit scheme netloc (if params \<noteq> [] then url @ '';'' @ params else url) query fragment"

text \<open>The loop of \<^verbatim>\<open>urljoin\<close> over the segments, \<^verbatim>\<open>resolved_path\<close> as the accumulator:
  \<^verbatim>\<open>..\<close> pops (nothing, from an empty list), \<^verbatim>\<open>.\<close> is skipped.\<close>

fun resolve_segments :: "string list \<Rightarrow> string list \<Rightarrow> string list" where
  "resolve_segments resolved [] = resolved"
| "resolve_segments resolved (seg # segs) =
     (if seg = ''..'' then resolve_segments (butlast resolved) segs
      else if seg = ''.'' then resolve_segments resolved segs
      else resolve_segments (resolved @ [seg]) segs)"

text \<open>\<^verbatim>\<open>segments[1:-1] = filter(None, segments[1:-1])\<close>.\<close>

definition filter_inner :: "string list \<Rightarrow> string list" where
  "filter_inner segments =
     (if length segments \<le> 2 then segments
      else hd segments # filter (\<lambda>s. s \<noteq> []) (butlast (tl segments)) @ [last segments])"

definition urljoin :: "urllib \<Rightarrow> string \<Rightarrow> string \<Rightarrow> py_exception + string" where
  "urljoin lib base url =
     (if base = [] then Inr url
      else if url = [] then Inr base
      else
        (case urlparse lib base [] of
           Inl e \<Rightarrow> Inl e
         | Inr (bscheme, bnetloc, bpath, bparams, bquery, bfragment) \<Rightarrow>
        (case urlparse lib url bscheme of
           Inl e \<Rightarrow> Inl e
         | Inr (scheme, netloc, path, params, query, fragment) \<Rightarrow>
             if scheme \<noteq> bscheme \<or> scheme \<notin> set uses_relative then Inr url
             else if scheme \<in> set uses_netloc \<and> netloc \<noteq> []
             then Inr (urlunparse scheme netloc path params query fragment)
             else
               (let netloc = (if scheme \<in> set uses_netloc then bnetloc else netloc) in
                if path = [] \<and> params = []
                then Inr (urlunparse scheme netloc bpath bparams
                            (if query = [] then bquery else query) fragment)
                else
                  (let base_parts = split_all CHR ''/'' bpath;
                       base_parts = (if last base_parts \<noteq> [] then butlast base_parts
                                     else base_parts);
                       segments =
                         (if take 1 path = ''/'' then split_all CHR ''/'' path
                          else filter_inner (base_parts @ split_all CHR ''/'' path));
                       resolved_path = resolve_segments [] segments;
                       resolved_path =
                         (if last segments \<in> {''.'', ''..''} then resolved_path @ [[]]
                          else resolved_path);
                       joined = join ''/'' resolved_path
                   in Inr (urlunparse scheme netloc (if joined = [] then ''/'' else joined)
                             params query fragment))))))"


section \<open>Effects: what a run prints and sends, and how it ends\<close>

text \<open>
  A run of the program is the list of its effects in order, and how it ends.
  \<open>Print args\<close> is one call \<^verbatim>\<open>print(*args)\<close>; \<open>Help p\<close> is the help text of parser \<open>p\<close>
  on standard output; \<open>Usage_error p\<close> is the usage message of parser \<open>p\<close> on standard
  error; \<open>Post req\<close> is one call of \<^verbatim>\<open>requests.post\<close>.
\<close>

datatype parser_id = Tc_parser | Linux_parser | Har_parser

record http_request =
  req_url :: string
  req_auth :: "string \<times> string"
  req_headers :: "(string \<times> string) list"
  req_data :: string

datatype event =
    Print "pyval list"
  | Help parser_id
  | Usage_error parser_id
  | Post http_request

datatype outcome = Returned | SystemExit nat | Raised py_exception

type_synonym run = "event list \<times> outcome"

text \<open>The exit status of the process: 0 when the script runs to its end, the argument
  of \<^verbatim>\<open>exit\<close>, and 1 when an exception is never caught (the interpreter prints the
  traceback).\<close>

fun exit_status :: "outcome \<Rightarrow> nat" where
  "exit_status Returned = 0"
| "exit_status (SystemExit n) = n"
| "exit_status (Raised e) = 1"

text \<open>
  A response as \<^verbatim>\<open>requests\<close> hands it over: \<open>resp_json\<close> is what \<^verbatim>\<open>resp.json()\<close>
  returns, \<open>None\<close> when it raises because the body is not JSON.
\<close>

record response =
  status_code :: nat
  resp_text :: string
  resp_json :: "pyval option"

text \<open>\<^verbatim>\<open>Response.ok\<close>: \<^verbatim>\<open>raise_for_status()\<close> does not raise, which it does for the
  statuses 400 to 599.\<close>

definition ok :: "response \<Rightarrow> bool" where
  "ok resp = (\<not> (400 \<le> status_code resp \<and> status_code resp < 600))"

text \<open>
  What the program does not decide itself:
  \<^item> \<open>post\<close>: \<^verbatim>\<open>requests.post\<close>, the network and the server: the response, or the
    exception \<^verbatim>\<open>requests\<close> raises;
  \<^item> \<open>urllib\<close>: the two library checks of \<^verbatim>\<open>urlsplit\<close>;
  \<^item> \<open>argparse_command\<close>, \<open>argparse_linux\<close>, \<open>argparse_har\<close>: what \<^verbatim>\<open>argparse\<close> makes of
    a command line that holds an argument starting with \<^verbatim>\<open>-\<close> that is not one of the
    parser's option strings letter for letter (an abbreviation, \<^verbatim>\<open>--opt=value\<close>,
    joined short options, \<^verbatim>\<open>--\<close>, a negative number);
  \<^item> \<open>inherited\<close>: the attributes a \<^verbatim>\<open>TC\<close> object inherits from \<^verbatim>\<open>object\<close>, other than
    \<^verbatim>\<open>__class__\<close>: for the name of one, how calling it with one list ends (it returns,
    or raises TypeError; it prints and sends nothing); \<open>None\<close> for any other name.
\<close>

datatype 'a parse_result = Parsed 'a | Parse_error | Parse_help

record tc_args =
  user :: string
  password :: string
  remote :: string
  teamcity :: string
  personal :: bool
  branch :: string

record linux_args = tc_args +
  maven_goals :: string
  maven_args :: string
  jdk :: string

record env =
  post :: "http_request \<Rightarrow> py_exception + response"
  urllib :: urllib
  argparse_command :: "string \<Rightarrow> string parse_result"
  argparse_linux :: "string list \<Rightarrow> linux_args parse_result"
  argparse_har :: "string list \<Rightarrow> tc_args parse_result"
  inherited :: "string \<Rightarrow> outcome option"

section \<open>Transport\<close>

text \<open>\<^verbatim>\<open>resp.json().get('webUrl')\<close>: only a dictionary has \<^verbatim>\<open>get\<close>; a key that is
  missing gives \<^verbatim>\<open>None\<close>.\<close>

fun get_webUrl :: "pyval \<Rightarrow> py_exception + pyval" where
  "get_webUrl (PDict items) =
     (case map_of items ''webUrl'' of None \<Rightarrow> Inr PNone | Some v \<Rightarrow> Inr v)"
| "get_webUrl v = Inl AttributeError"

text \<open>\<^verbatim>\<open>send_request(user, password, url, data)\<close>.\<close>

definition send_request :: "env \<Rightarrow> string \<Rightarrow> string \<Rightarrow> string \<Rightarrow> string \<Rightarrow> run" where
  "send_request env usr pwd url data =
     (case urljoin (urllib env) url ''httpAuth/app/rest/buildQueue'' of
        Inl e \<Rightarrow> ([], Raised e)
      | Inr target \<Rightarrow>
          (let req = \<lparr>req_url = target, req_auth = (usr, pwd), req_headers = headers,
                      req_data = data\<rparr>
           in case post env req of
                Inl e \<Rightarrow> ([Post req], Raised e)
              | Inr resp \<Rightarrow>
                  if ok resp then
                    (case resp_json resp of
                       None \<Rightarrow>
                         ([Post req, Print [PStr ''Build started. View status at'']],
                          Raised ValueError)
                     | Some body \<Rightarrow>
                         (case get_webUrl body of
                            Inl e \<Rightarrow>
                              ([Post req, Print [PStr ''Build started. View status at'']],
                               Raised e)
                          | Inr web_url \<Rightarrow>
                              ([Post req, Print [PStr ''Build started. View status at''],
                                Print [web_url]],
                               Returned)))
                  else
                    ([Post req, Print [PStr ''Could not start build:''],
                      Print [PInt (int (status_code resp))],
                      Print [case resp_json resp of Some body \<Rightarrow> body
                             | None \<Rightarrow> PStr (resp_text resp)]],
                     SystemExit 1)))"

section \<open>The two builds\<close>

text \<open>\<^verbatim>\<open>start_linux(user, password, url, personal, branch, remote, mvngoals, mvnargs, jdk)\<close>.\<close>

definition start_linux ::
  "env \<Rightarrow> string \<Rightarrow> string \<Rightarrow> string \<Rightarrow> bool \<Rightarrow> string \<Rightarrow> string \<Rightarrow> string \<Rightarrow> string
     \<Rightarrow> string \<Rightarrow> run" where
  "start_linux env usr pwd url pers br rem mvngoals mvnargs jdk_name =
     (case py_format ''%{}%'' [jdk_name] [] of
        Inl e \<Rightarrow> ([], Raised e)
      | Inr jdk_value \<Rightarrow>
     (case dict_as_properties [(''project-default-jdk'', jdk_value),
                               (''maven-goals'', mvngoals),
                               (''maven-args'', mvnargs)] of
        Inl e \<Rightarrow> ([], Raised e)
      | Inr props \<Rightarrow>
     (case request_xml neo4jlinux_id pers br rem (Some props) of
        Inl e \<Rightarrow> ([], Raised e)
      | Inr data \<Rightarrow> send_request env usr pwd url data)))"

text \<open>\<^verbatim>\<open>start_ha(user, password, url, personal, branch, remote)\<close>.\<close>

definition start_ha ::
  "env \<Rightarrow> string \<Rightarrow> string \<Rightarrow> string \<Rightarrow> bool \<Rightarrow> string \<Rightarrow> string \<Rightarrow> run" where
  "start_ha env usr pwd url pers br rem =
     (case request_xml har_id pers br rem None of
        Inl e \<Rightarrow> ([], Raised e)
      | Inr data \<Rightarrow> send_request env usr pwd url data)"

section \<open>The argument parsers\<close>

text \<open>
  The parsers are \<^verbatim>\<open>argparse\<close> parsers. A declaration \<^verbatim>\<open>add_argument\<close> is an
  \<open>argument\<close>: its option strings, what it does to the namespace, whether it is
  required, its choices, and the option strings it excludes (its mutually exclusive
  group). \<open>Store f\<close> takes one argument and keeps it; \<open>Store_const f\<close> is
  \<^verbatim>\<open>store_true\<close> and \<^verbatim>\<open>store_false\<close>; \<open>Help_action\<close> is the \<^verbatim>\<open>-h\<close> that every parser
  made without \<^verbatim>\<open>add_help=False\<close> has.
\<close>

datatype 'ns action = Store "string \<Rightarrow> 'ns \<Rightarrow> 'ns" | Store_const "'ns \<Rightarrow> 'ns" | Help_action

record 'ns argument =
  option_strings :: "string list"
  action :: "'ns action"
  required :: bool
  choices :: "string list option"
  excludes :: "string list"

definition optional :: "string list \<Rightarrow> 'ns action \<Rightarrow> 'ns argument" where
  "optional flags act =
     \<lparr>option_strings = flags, action = act, required = False, choices = None, excludes = []\<rparr>"

definition help_argument :: "'ns argument" where
  "help_argument = optional [''-h'', ''--help''] Help_action"

text \<open>\<^verbatim>\<open>_parser\<close>, the arguments all builds share (lines 56 to 75).\<close>

definition parser_shared :: "('a tc_args_scheme) argument list" where
  "parser_shared =
     [(optional [''-u'', ''--user''] (Store (\<lambda>v ns. ns\<lparr>user := v\<rparr>)))\<lparr>required := True\<rparr>,
      (optional [''-p'', ''--password''] (Store (\<lambda>v ns. ns\<lparr>password := v\<rparr>)))\<lparr>required := True\<rparr>,
      optional [''-r'', ''--remote''] (Store (\<lambda>v ns. ns\<lparr>remote := v\<rparr>)),
      optional [''--teamcity''] (Store (\<lambda>v ns. ns\<lparr>teamcity := v\<rparr>)),
      (optional [''--personal''] (Store_const (\<lambda>ns. ns\<lparr>personal := True\<rparr>)))
         \<lparr>excludes := [''--no-personal'']\<rparr>,
      (optional [''--no-personal''] (Store_const (\<lambda>ns. ns\<lparr>personal := False\<rparr>)))
         \<lparr>excludes := [''--personal'']\<rparr>]"

text \<open>The \<^verbatim>\<open>-b\<close> that \<^verbatim>\<open>_neo4jparserbase\<close> declares, and that \<^verbatim>\<open>har\<close> adds to
  \<^verbatim>\<open>_required\<close> before it builds its parser.\<close>

definition branch_argument :: "('a tc_args_scheme) argument" where
  "branch_argument =
     (optional [''-b'', ''--branch''] (Store (\<lambda>v ns. ns\<lparr>branch := v\<rparr>)))\<lparr>required := True\<rparr>"

text \<open>\<^verbatim>\<open>_neo4jparserbase\<close> (lines 78 to 87).\<close>

definition neo4jparserbase :: "('a linux_args_scheme) argument list" where
  "neo4jparserbase =
     [optional [''--maven-goals''] (Store (\<lambda>v ns. ns\<lparr>maven_goals := v\<rparr>)),
      optional [''--maven-args''] (Store (\<lambda>v ns. ns\<lparr>maven_args := v\<rparr>)),
      branch_argument]"

text \<open>The parser of \<^verbatim>\<open>TC.linux\<close>: its own help, the two parents, and \<^verbatim>\<open>--jdk\<close>.\<close>

definition linux_parser :: "linux_args argument list" where
  "linux_parser =
     help_argument # parser_shared @ neo4jparserbase @
     [(optional [''--jdk''] (Store (\<lambda>v ns. ns\<lparr>jdk := v\<rparr>)))\<lparr>choices := Some linux_jdks\<rparr>]"

text \<open>The parser of \<^verbatim>\<open>TC.har\<close>: its own help and \<^verbatim>\<open>_parser\<close>, which by then holds
  \<^verbatim>\<open>-b\<close>.\<close>

definition har_parser :: "tc_args argument list" where
  "har_parser = help_argument # parser_shared @ [branch_argument]"

text \<open>
  The namespace before any argument is read: the defaults. A required option has no
  default (\<^verbatim>\<open>None\<close> in Python); its field is read only after the parser has seen the
  option, and is empty here.
\<close>

definition har_defaults :: tc_args where
  "har_defaults =
     \<lparr>user = [], password = [], remote = ''origin'', teamcity = ''https://build.neohq.net'',
      personal = False, branch = []\<rparr>"

definition linux_defaults :: linux_args where
  "linux_defaults =
     \<lparr>user = [], password = [], remote = ''origin'', teamcity = ''https://build.neohq.net'',
      personal = False, branch = [],
      maven_goals = ''clean verify'', maven_args = ''-DrunITs -DskipBrowser'',
      jdk = linux_jdks ! 0\<rparr>"

text \<open>An argument that starts with the prefix character.\<close>

fun dashed :: "string \<Rightarrow> bool" where
  "dashed [] = False"
| "dashed (c # cs) = (c = CHR ''-'')"

fun find_argument :: "'ns argument list \<Rightarrow> string \<Rightarrow> 'ns argument option" where
  "find_argument [] t = None"
| "find_argument (a # as) t =
     (if t \<in> set (option_strings a) then Some a else find_argument as t)"

text \<open>A required argument none of whose option strings was seen.\<close>

definition missing_required :: "'ns argument list \<Rightarrow> string list \<Rightarrow> bool" where
  "missing_required p seen =
     list_ex (\<lambda>a. required a \<and> list_all (\<lambda>f. f \<notin> set seen) (option_strings a)) p"

text \<open>
  \<^verbatim>\<open>parse_args\<close> on a command line whose arguments starting with \<^verbatim>\<open>-\<close> are all option
  strings of the parser, letter for letter. The arguments are read from left to right:
  an option that stores takes the next argument, which must be there and must not be an
  option string; a value outside the choices, and an option whose mutually exclusive
  partner was seen, is an error; \<^verbatim>\<open>-h\<close> ends the parse at once; an argument that is no
  option is kept aside, and is an error at the end, as a missing required option is.
  \<open>seen\<close> holds the option strings read so far, \<open>extra\<close> whether an argument was kept
  aside.
\<close>

fun consume ::
  "'ns argument list \<Rightarrow> 'ns \<Rightarrow> string list \<Rightarrow> bool \<Rightarrow> string list \<Rightarrow> 'ns parse_result" where
  "consume p ns seen extra [] =
     (if missing_required p seen \<or> extra then Parse_error else Parsed ns)"
| "consume p ns seen extra (t # ts) =
     (if dashed t then
        (case find_argument p t of
           None \<Rightarrow> Parse_error
         | Some a \<Rightarrow>
             (case action a of
                Help_action \<Rightarrow> Parse_help
              | Store_const f \<Rightarrow>
                  if list_ex (\<lambda>x. x \<in> set seen) (excludes a) then Parse_error
                  else consume p (f ns) (option_strings a @ seen) extra ts
              | Store f \<Rightarrow>
                  (case ts of
                     [] \<Rightarrow> Parse_error
                   | v # rest \<Rightarrow>
                       if dashed v then Parse_error
                       else if (case choices a of None \<Rightarrow> False | Some cs \<Rightarrow> v \<notin> set cs)
                       then Parse_error
                       else consume p (f v ns) (option_strings a @ seen) extra rest)))
      else consume p ns seen True ts)"

definition plain :: "'ns argument list \<Rightarrow> string list \<Rightarrow> bool" where
  "plain p argv = list_all (\<lambda>t. if dashed t then find_argument p t \<noteq> None else True) argv"

definition parse_args ::
  "'ns argument list \<Rightarrow> 'ns \<Rightarrow> (string list \<Rightarrow> 'ns parse_result) \<Rightarrow> string list
     \<Rightarrow> 'ns parse_result" where
  "parse_args p defaults library argv =
     (if plain p argv then consume p defaults [] False argv else library argv)"

text \<open>
  The parser of \<^verbatim>\<open>TC.__init__\<close>: one positional \<^verbatim>\<open>command\<close> and the help; it is given
  \<^verbatim>\<open>cliargs[:1]\<close>. No argument is an error (the command is required); an argument
  that does not start with \<^verbatim>\<open>-\<close> is the command; \<^verbatim>\<open>-h\<close> and \<^verbatim>\<open>--help\<close> print the help.
\<close>

fun parse_command :: "env \<Rightarrow> string list \<Rightarrow> string parse_result" where
  "parse_command env [] = Parse_error"
| "parse_command env (t # ts) =
     (if \<not> dashed t then Parsed t
      else if t = ''-h'' \<or> t = ''--help'' then Parse_help
      else argparse_command env t)"

text \<open>How a call of \<^verbatim>\<open>parse_args\<close> that does not return ends: the usage message and
  status 2 (\<^verbatim>\<open>ArgumentParser.error\<close>), or the help and status 0.\<close>

definition parser_exit :: "parser_id \<Rightarrow> bool \<Rightarrow> run" where
  "parser_exit p is_help =
     (if is_help then ([Help p], SystemExit 0) else ([Usage_error p], SystemExit 2))"

section \<open>The dispatcher\<close>

text \<open>\<^verbatim>\<open>TC.linux(subargs)\<close>.\<close>

definition linux :: "env \<Rightarrow> string list \<Rightarrow> run" where
  "linux env subargs =
     (case parse_args linux_parser linux_defaults (argparse_linux env) subargs of
        Parse_error \<Rightarrow> parser_exit Linux_parser False
      | Parse_help \<Rightarrow> parser_exit Linux_parser True
      | Parsed args \<Rightarrow>
          start_linux env (user args) (password args) (teamcity args) (personal args)
            (branch args) (remote args) (maven_goals args) (tc_mvn_args (maven_args args))
            (jdk args))"

text \<open>\<^verbatim>\<open>TC.har(subargs)\<close>.\<close>

definition har :: "env \<Rightarrow> string list \<Rightarrow> run" where
  "har env subargs =
     (case parse_args har_parser har_defaults (argparse_har env) subargs of
        Parse_error \<Rightarrow> parser_exit Har_parser False
      | Parse_help \<Rightarrow> parser_exit Har_parser True
      | Parsed args \<Rightarrow>
          start_ha env (user args) (password args) (teamcity args) (personal args)
            (branch args) (remote args))"

text \<open>
  \<^verbatim>\<open>TC.__init__(cliargs)\<close>. The command is looked up with \<^verbatim>\<open>hasattr\<close> and called with
  \<^verbatim>\<open>getattr\<close>, so every attribute of the object is a command: the methods \<^verbatim>\<open>linux\<close>,
  \<^verbatim>\<open>har\<close> and \<^verbatim>\<open>__init__\<close> of the class, \<^verbatim>\<open>__class__\<close> (calling it makes a new \<^verbatim>\<open>TC\<close>,
  which runs \<^verbatim>\<open>__init__\<close>), and what the object inherits from \<^verbatim>\<open>object\<close>.
\<close>

fun TC_init :: "env \<Rightarrow> string list \<Rightarrow> run" where
  "TC_init env [] = parser_exit Tc_parser False"
| "TC_init env (arg # rest) =
     (case parse_command env [arg] of
        Parse_error \<Rightarrow> parser_exit Tc_parser False
      | Parse_help \<Rightarrow> parser_exit Tc_parser True
      | Parsed command \<Rightarrow>
          if command = ''linux'' then linux env rest
          else if command = ''har'' then har env rest
          else if command = ''__init__'' \<or> command = ''__class__'' then TC_init env rest
          else
            (case inherited env command of
               Some result \<Rightarrow> ([], result)
             | None \<Rightarrow>
                 ([Print [PStr ''Unrecognized command:'', PStr command], Help Tc_parser],
                  SystemExit 1)))"

text \<open>The script: \<^verbatim>\<open>TC(sys.argv[1:])\<close>, and the exit status of the process.\<close>

definition main :: "env \<Rightarrow> string list \<Rightarrow> nat" where
  "main env argv = exit_status (snd (TC_init env argv))"

section \<open>Well-formed XML\<close>

text \<open>
  What it means for the rendered text to be an XML document, for the claim that an
  unescaped value corrupts it. This is not code of the program: it is the grammar of
  XML 1.0 for a document that is one element with attributes, nested elements, text and
  references, read one character at a time (no prolog, comment, processing instruction
  or CDATA section; the program's template has none). It is generous with names: any
  character that is not white space, a quote or one of \<^verbatim>\<open><>/=&;\<close> may stand in one.
  An attribute value is quoted, holds no \<^verbatim>\<open><\<close>, and holds \<^verbatim>\<open>&\<close> only as the start of a
  reference that ends in a semicolon; attributes are separated by white space; every
  element is closed by its own end tag; there is one root element.
\<close>

definition xml_space :: "char \<Rightarrow> bool" where
  "xml_space c = (c = CHR '' '' \<or> c = CHR 0x09 \<or> c = CHR 0x0A \<or> c = CHR 0x0D)"

definition name_char :: "char \<Rightarrow> bool" where
  "name_char c = (\<not> xml_space c \<and> c \<notin> set ''<>/=&;\"'' \<and> c \<noteq> CHR 0x27)"

datatype xml_state =
    Content
  | Content_ref
  | Tag_open
  | Start_name string
  | In_tag string bool
  | Attr_name string
  | Attr_eq string
  | Attr_val string
  | In_value string char
  | Value_ref string char
  | Empty_close string
  | End_open
  | End_name string
  | End_ws string

text \<open>One character. The second component is the stack of open elements, the third
  says whether the root element has been closed. \<open>None\<close>: the text is not well-formed.\<close>

fun xml_step :: "xml_state \<times> string list \<times> bool \<Rightarrow> char \<Rightarrow> (xml_state \<times> string list \<times> bool) option" where
  "xml_step (Content, stack, closed) c =
     (if c = CHR ''<'' then (if stack = [] \<and> closed then None else Some (Tag_open, stack, closed))
      else if stack = [] then (if xml_space c then Some (Content, stack, closed) else None)
      else if c = CHR ''&'' then Some (Content_ref, stack, closed)
      else Some (Content, stack, closed))"
| "xml_step (Content_ref, stack, closed) c =
     (if c = CHR '';'' then Some (Content, stack, closed)
      else if name_char c \<or> c = CHR ''#'' then Some (Content_ref, stack, closed) else None)"
| "xml_step (Tag_open, stack, closed) c =
     (if c = CHR ''/'' then Some (End_open, stack, closed)
      else if name_char c then Some (Start_name [c], stack, closed) else None)"
| "xml_step (Start_name n, stack, closed) c =
     (if name_char c then Some (Start_name (n @ [c]), stack, closed)
      else if xml_space c then Some (In_tag n True, stack, closed)
      else if c = CHR ''>'' then Some (Content, n # stack, closed)
      else if c = CHR ''/'' then Some (Empty_close n, stack, closed)
      else None)"
| "xml_step (In_tag n spaced, stack, closed) c =
     (if xml_space c then Some (In_tag n True, stack, closed)
      else if c = CHR ''>'' then Some (Content, n # stack, closed)
      else if c = CHR ''/'' then Some (Empty_close n, stack, closed)
      else if name_char c \<and> spaced then Some (Attr_name n, stack, closed)
      else None)"
| "xml_step (Attr_name n, stack, closed) c =
     (if name_char c then Some (Attr_name n, stack, closed)
      else if xml_space c then Some (Attr_eq n, stack, closed)
      else if c = CHR ''='' then Some (Attr_val n, stack, closed)
      else None)"
| "xml_step (Attr_eq n, stack, closed) c =
     (if xml_space c then Some (Attr_eq n, stack, closed)
      else if c = CHR ''='' then Some (Attr_val n, stack, closed)
      else None)"
| "xml_step (Attr_val n, stack, closed) c =
     (if xml_space c then Some (Attr_val n, stack, closed)
      else if c = CHR 0x22 \<or> c = CHR 0x27 then Some (In_value n c, stack, closed)
      else None)"
| "xml_step (In_value n q, stack, closed) c =
     (if c = q then Some (In_tag n False, stack, closed)
      else if c = CHR ''<'' then None
      else if c = CHR ''&'' then Some (Value_ref n q, stack, closed)
      else Some (In_value n q, stack, closed))"
| "xml_step (Value_ref n q, stack, closed) c =
     (if c = CHR '';'' then Some (In_value n q, stack, closed)
      else if name_char c \<or> c = CHR ''#'' then Some (Value_ref n q, stack, closed) else None)"
| "xml_step (Empty_close n, stack, closed) c =
     (if c = CHR ''>'' then Some (Content, stack, stack = []) else None)"
| "xml_step (End_open, stack, closed) c =
     (if name_char c then Some (End_name [c], stack, closed) else None)"
| "xml_step (End_name n, stack, closed) c =
     (if name_char c then Some (End_name (n @ [c]), stack, closed)
      else if xml_space c then Some (End_ws n, stack, closed)
      else if c = CHR ''>'' then
        (case stack of [] \<Rightarrow> None
         | opened # below \<Rightarrow> if opened = n then Some (Content, below, below = []) else None)
      else None)"
| "xml_step (End_ws n, stack, closed) c =
     (if xml_space c then Some (End_ws n, stack, closed)
      else if c = CHR ''>'' then
        (case stack of [] \<Rightarrow> None
         | opened # below \<Rightarrow> if opened = n then Some (Content, below, below = []) else None)
      else None)"

fun xml_run :: "xml_state \<times> string list \<times> bool \<Rightarrow> string \<Rightarrow> (xml_state \<times> string list \<times> bool) option" where
  "xml_run s [] = Some s"
| "xml_run s (c # cs) = (case xml_step s c of None \<Rightarrow> None | Some s' \<Rightarrow> xml_run s' cs)"

definition well_formed :: "string \<Rightarrow> bool" where
  "well_formed doc = (xml_run (Content, [], False) doc = Some (Content, [], True))"


section \<open>The notions the properties are stated with\<close>

text \<open>The element one entry of the properties mapping is to give, and the document a
  build request is to give: the two properties that are always there, then one element
  for each entry, in the order of the entries.\<close>

definition property_element :: "string \<times> string \<Rightarrow> string" where
  "property_element item =
     ''\<newline>    <property name=\"'' @ fst item @ ''\" value=\"'' @ snd item @ ''\"/>''"

definition build_document ::
  "string \<Rightarrow> bool \<Rightarrow> string \<Rightarrow> string \<Rightarrow> (string \<times> string) list \<Rightarrow> string" where
  "build_document buildid pers br rem items =
     ''\<newline><build personal=\"'' @ (if pers then ''true'' else ''false'')
     @ ''\" branchName=\"'' @ br @ ''\">\<newline>  <buildType id=\"'' @ buildid
     @ ''\"/>\<newline>  <comment><text>Triggered from CLI</text></comment>\<newline>  <properties>''
     @ concat (map property_element ((''remote'', rem) # (''branch'', br) # items))
     @ ''\<newline>  </properties>\<newline></build>\<newline>''"

text \<open>How often a text occurs in another, counted at every position.\<close>

fun occurrences :: "string \<Rightarrow> string \<Rightarrow> nat" where
  "occurrences pat [] = 0"
| "occurrences pat (c # cs) = (if prefix pat (c # cs) then 1 else 0) + occurrences pat cs"

text \<open>A text with no \<^verbatim>\<open><\<close> in it.\<close>

definition no_lt :: "string \<Rightarrow> bool" where
  "no_lt s = (CHR ''<'' \<notin> set s)"

text \<open>The request \<^verbatim>\<open>send_request\<close> is to send to a URL.\<close>

definition build_request :: "string \<Rightarrow> string \<Rightarrow> string \<Rightarrow> string \<Rightarrow> http_request" where
  "build_request target usr pwd data =
     \<lparr>req_url = target, req_auth = (usr, pwd),
      req_headers = [(''Accept'', ''application/json''), (''Content-Type'', ''application/xml'')],
      req_data = data\<rparr>"


text \<open>
  A sample environment for the concrete runs below: a server that answers every request
  with the given response, library checks that pass, no attribute inherited under the
  names the runs use, and a usage error for the command lines handed to the library
  (the runs below hand it none).
\<close>

definition answering :: "response \<Rightarrow> env" where
  "answering resp =
     \<lparr>post = (\<lambda>req. Inr resp),
      urllib = \<lparr>check_bracketed_host = (\<lambda>h. True), checknetloc_nfkc = (\<lambda>h. True)\<rparr>,
      argparse_command = (\<lambda>t. Parse_error),
      argparse_linux = (\<lambda>argv. Parse_error),
      argparse_har = (\<lambda>argv. Parse_error),
      inherited = (\<lambda>name. None)\<rparr>"

definition started :: response where
  "started =
     \<lparr>status_code = 200, resp_text = ''{\"webUrl\": \"https://x/y\"}'',
      resp_json = Some (PDict [(''webUrl'', PStr ''https://x/y'')])\<rparr>"





text \<open>Responses for the concrete runs: a redirection that \<^verbatim>\<open>requests\<close> cannot follow
  (no \<^verbatim>\<open>Location\<close>), with a JSON body; a 200 whose body is not JSON; a 403 whose
  body is not JSON; a 200 whose JSON object has no \<^verbatim>\<open>webUrl\<close>.\<close>

definition multiple_choices :: response where
  "multiple_choices =
     \<lparr>status_code = 300, resp_text = ''{\"choices\": []}'',
      resp_json = Some (PDict [(''choices'', PList [])])\<rparr>"

definition not_json :: response where
  "not_json = \<lparr>status_code = 200, resp_text = ''<html>OK</html>'', resp_json = None\<rparr>"

definition forbidden :: response where
  "forbidden = \<lparr>status_code = 403, resp_text = ''Access denied'', resp_json = None\<rparr>"

definition no_web_url :: response where
  "no_web_url =
     \<lparr>status_code = 200, resp_text = ''{\"id\": 7}'', resp_json = Some (PDict [(''id'', PInt 7)])\<rparr>"

section \<open>The rendered document\<close>

lemma format_property:
  "py_format requestpropertybase [] [(''name'', k), (''value'', v)] = Inr (property_element (k, v))"
  by (simp add: py_format_def requestpropertybase_def property_element_def)

lemma properties_loop_eq:
  "properties_loop xml items = Inr (xml @ concat (map property_element items))"
proof (induction items arbitrary: xml)
  case Nil
  show ?case by simp
next
  case (Cons item items)
  obtain k v where item: "item = (k, v)" by (cases item)
  show ?case unfolding item by (simp add: format_property Cons.IH)
qed

lemma dict_as_properties_eq:
  "dict_as_properties items = Inr (concat (map property_element items))"
  by (simp add: dict_as_properties_def properties_loop_eq)

lemma lower_True: "lower (str_bool True) = ''true''"
  by code_simp

lemma lower_False: "lower (str_bool False) = ''false''"
  by code_simp

lemma lower_str_bool: "lower (str_bool b) = (if b then ''true'' else ''false'')"
  by (cases b) (simp_all only: lower_True lower_False if_True if_False)

lemma format_requestbase:
  "py_format requestbase []
     [(''buildid'', b), (''remote'', r), (''branch'', br), (''props'', ps), (''personal'', p)]
   = Inr (''\<newline><build personal=\"'' @ p @ ''\" branchName=\"'' @ br
          @ ''\">\<newline>  <buildType id=\"'' @ b
          @ ''\"/>\<newline>  <comment><text>Triggered from CLI</text></comment>\<newline>  <properties>''
          @ property_element (''remote'', r) @ property_element (''branch'', br) @ ps
          @ ''\<newline>  </properties>\<newline></build>\<newline>'')"
  by (simp add: py_format_def requestbase_def property_element_def)

lemma request_xml_items:
  "request_xml b p br r (Some (concat (map property_element items)))
     = Inr (build_document b p br r items)"
  by (simp add: request_xml_def format_requestbase lower_str_bool build_document_def del: append_assoc)

lemma request_xml_none:
  "request_xml b p br r None = Inr (build_document b p br r [])"
  by (simp add: request_xml_def format_requestbase lower_str_bool build_document_def)

lemma format_jdk: "py_format ''%{}%'' [j] [] = Inr (''%'' @ j @ ''%'')"
  by (simp add: py_format_def)

lemma start_linux_eq:
  "start_linux env u p url pers br rem g a j =
     send_request env u p url
       (build_document neo4jlinux_id pers br rem
          [(''project-default-jdk'', ''%'' @ j @ ''%''), (''maven-goals'', g), (''maven-args'', a)])"
  unfolding start_linux_def
  by (simp only: format_jdk dict_as_properties_eq request_xml_items sum.case)

lemma start_ha_eq:
  "start_ha env u p url pers br rem =
     send_request env u p url (build_document har_id pers br rem [])"
  unfolding start_ha_def by (simp only: request_xml_none sum.case)


lemma occurrences_no_lt:
  "no_lt s \<Longrightarrow> occurrences (CHR ''<'' # p) (s @ t) = occurrences (CHR ''<'' # p) t"
  by (induction s) (auto simp: no_lt_def)

lemma occurrences_property_element:
  "no_lt k \<Longrightarrow> no_lt v \<Longrightarrow>
   occurrences ''<property '' (property_element (k, v) @ t) = Suc (occurrences ''<property '' t)"
  by (simp add: property_element_def occurrences_no_lt)

lemma occurrences_properties:
  "list_all (\<lambda>item. no_lt (fst item) \<and> no_lt (snd item)) items \<Longrightarrow>
   occurrences ''<property '' (concat (map property_element items) @ t)
     = length items + occurrences ''<property '' t"
proof (induction items)
  case Nil
  show ?case by simp
next
  case (Cons item items)
  obtain k v where item: "item = (k, v)" by (cases item)
  from Cons.prems have kv: "no_lt k" "no_lt v"
    and rest: "list_all (\<lambda>item. no_lt (fst item) \<and> no_lt (snd item)) items"
    by (simp_all add: item)
  show ?case
    using Cons.IH [OF rest] by (simp add: item occurrences_property_element [OF kv])
qed

lemma occurrences_build_document:
  assumes "no_lt b" "no_lt br" "no_lt r"
    and "list_all (\<lambda>item. no_lt (fst item) \<and> no_lt (snd item)) items"
  shows "occurrences ''<property '' (build_document b p br r items) = length items + 2"
proof -
  have tail: "occurrences ''<property '' ''\<newline>  </properties>\<newline></build>\<newline>'' = 0"
    by simp
  have props: "occurrences ''<property ''
       (concat (map property_element ((''remote'', r) # (''branch'', br) # items))
        @ ''\<newline>  </properties>\<newline></build>\<newline>'') = length items + 2"
    using occurrences_properties [of "(''remote'', r) # (''branch'', br) # items"
        "''\<newline>  </properties>\<newline></build>\<newline>''"] assms
    by (simp add: no_lt_def tail)
  have "occurrences ''<property '' (build_document b p br r items)
      = occurrences ''<property ''
          (concat (map property_element ((''remote'', r) # (''branch'', br) # items))
           @ ''\<newline>  </properties>\<newline></build>\<newline>'')"
    unfolding build_document_def using assms(1,2)
    by (cases p) (simp_all add: occurrences_no_lt del: concat.simps map_append list.map)
  with props show ?thesis by simp
qed

text \<open>
  Claim C1. Every build request renders one document: the root \<^verbatim>\<open>build\<close> element, and in
  its \<^verbatim>\<open>properties\<close> block the properties \<^verbatim>\<open>remote\<close> and \<^verbatim>\<open>branch\<close> followed by one
  \<^verbatim>\<open>property\<close> element for each entry of the mapping, in the order of the entries.
  The Linux build passes three entries, the HA build none. When no name and no value
  holds a \<^verbatim>\<open><\<close>, the document has as many \<^verbatim>\<open>property\<close> start tags as the mapping has
  entries, and two more.
\<close>

theorem properties_rendered:
  "dict_as_properties items = Inr (concat (map property_element items))
   \<and> request_xml b p br r (Some (concat (map property_element items)))
       = Inr (build_document b p br r items)
   \<and> request_xml b p br r None = Inr (build_document b p br r [])
   \<and> start_linux env u pw url p br r goals args j =
       send_request env u pw url
         (build_document neo4jlinux_id p br r
            [(''project-default-jdk'', ''%'' @ j @ ''%''), (''maven-goals'', goals),
             (''maven-args'', args)])
   \<and> start_ha env u pw url p br r = send_request env u pw url (build_document har_id p br r [])
   \<and> (no_lt b \<and> no_lt br \<and> no_lt r
        \<and> list_all (\<lambda>item. no_lt (fst item) \<and> no_lt (snd item)) items
      \<longrightarrow> occurrences ''<property '' (build_document b p br r items) = length items + 2)"
proof (intro conjI impI)
  assume "no_lt b \<and> no_lt br \<and> no_lt r
    \<and> list_all (\<lambda>item. no_lt (fst item) \<and> no_lt (snd item)) items"
  then show "occurrences ''<property '' (build_document b p br r items) = length items + 2"
    using occurrences_build_document [of b br r items p] by simp
qed (rule dict_as_properties_eq request_xml_items request_xml_none start_linux_eq start_ha_eq)+

theorem properties_rendered_witness:
  "dict_as_properties [(''maven-goals'', ''clean verify''), (''maven-args'', ''-X'')]
     = Inr ''\<newline>    <property name=\"maven-goals\" value=\"clean verify\"/>\<newline>    <property name=\"maven-args\" value=\"-X\"/>''
   \<and> occurrences ''<property ''
        (build_document ''JonasHaRequests_Neo4jCustom'' False ''3.0'' ''origin''
           [(''maven-goals'', ''clean verify''), (''maven-args'', ''-X'')]) = 4"
  using properties_rendered [where items = "[(''maven-goals'', ''clean verify''), (''maven-args'', ''-X'')]"
      and b = "''JonasHaRequests_Neo4jCustom''" and p = False and br = "''3.0''"
      and r = "''origin''"]
  by (simp add: no_lt_def property_element_def)

lemma linux_parsed:
  assumes "parse_args linux_parser linux_defaults (argparse_linux env) subargs = Parsed args"
  shows "linux env subargs =
     send_request env (user args) (password args) (teamcity args)
       (build_document neo4jlinux_id (personal args) (branch args) (remote args)
          [(''project-default-jdk'', ''%'' @ jdk args @ ''%''),
           (''maven-goals'', maven_goals args),
           (''maven-args'', tc_mvn_args (maven_args args))])"
  unfolding linux_def by (simp add: assms start_linux_eq)

lemma har_parsed:
  assumes "parse_args har_parser har_defaults (argparse_har env) subargs = Parsed args"
  shows "har env subargs =
     send_request env (user args) (password args) (teamcity args)
       (build_document har_id (personal args) (branch args) (remote args) [])"
  unfolding har_def by (simp add: assms start_ha_eq)

lemma sublist_middle: "sublist ys (xs @ ys @ zs)"
  by (rule sublist_appendI)

lemma property_in_concat:
  assumes "item \<in> set items"
  shows "sublist (property_element item) (concat (map property_element items))"
proof -
  from assms obtain xs ys where "items = xs @ item # ys" by (meson split_list)
  then have "concat (map property_element items)
      = concat (map property_element xs) @ property_element item @ concat (map property_element ys)"
    by simp
  then show ?thesis by (simp only: sublist_appendI)
qed

lemma property_in_document:
  assumes "item \<in> set items"
  shows "sublist (property_element item) (build_document b p br r items)"
proof -
  have "sublist (property_element item)
      (concat (map property_element ((''remote'', r) # (''branch'', br) # items)))"
    using assms by (intro property_in_concat) simp
  then obtain pre post where
    "concat (map property_element ((''remote'', r) # (''branch'', br) # items))
       = pre @ property_element item @ post"
    by (auto simp: sublist_def)
  then have "build_document b p br r items =
      (''\<newline><build personal=\"'' @ (if p then ''true'' else ''false'')
       @ ''\" branchName=\"'' @ br @ ''\">\<newline>  <buildType id=\"'' @ b
       @ ''\"/>\<newline>  <comment><text>Triggered from CLI</text></comment>\<newline>  <properties>''
       @ pre) @ property_element item @ (post @ ''\<newline>  </properties>\<newline></build>\<newline>'')"
    unfolding build_document_def by (simp only: append_assoc)
  then show ?thesis by (simp only: sublist_appendI)
qed

lemma parse_linux_example:
  "parse_args linux_parser linux_defaults lib [''-u'', ''me'', ''-p'', ''pw'', ''-b'', ''3.0'']
     = Parsed (linux_defaults\<lparr>user := ''me'', password := ''pw'', branch := ''3.0''\<rparr>)"
  by (simp add: parse_args_def plain_def linux_parser_def parser_shared_def neo4jparserbase_def
      branch_argument_def help_argument_def optional_def missing_required_def)


lemma find_argument_mem: "find_argument p t = Some a \<Longrightarrow> a \<in> set p"
  by (induction p) (auto split: if_splits)

lemma consume_invariant:
  "\<lbrakk>\<And>a f v ns. \<lbrakk>a \<in> set p; action a = Store f;
        case choices a of None \<Rightarrow> True | Some cs \<Rightarrow> v \<in> set cs; P ns\<rbrakk> \<Longrightarrow> P (f v ns);
    \<And>a f ns. \<lbrakk>a \<in> set p; action a = Store_const f; P ns\<rbrakk> \<Longrightarrow> P (f ns);
    P ns; consume p ns seen extra argv = Parsed ns'\<rbrakk> \<Longrightarrow> P ns'"
proof (induction p ns seen extra argv rule: consume.induct)
  case (1 p ns seen extra)
  then show ?case by (simp split: if_splits)
next
  case (2 p ns seen extra t ts)
  note store = "2.prems"(1) and const = "2.prems"(2) and start = "2.prems"(3)
    and run = "2.prems"(4)
  show ?case
  proof (cases "dashed t")
    case False
    from run False have run': "consume p ns seen True ts = Parsed ns'" by simp
    show ?thesis
      by (rule "2.IH"(3) [OF False])
         (rule store; assumption | rule const; assumption | rule start | rule run')+
  next
    case True
    show ?thesis
    proof (cases "find_argument p t")
      case None
      with True run show ?thesis by simp
    next
      case (Some a)
      then have mem: "a \<in> set p" by (rule find_argument_mem)
      show ?thesis
      proof (cases "action a")
        case Help_action
        with True Some run show ?thesis by simp
      next
        case (Store_const f)
        with True Some run have
          ok: "\<not> list_ex (\<lambda>x. x \<in> set seen) (excludes a)"
          and run': "consume p (f ns) (option_strings a @ seen) extra ts = Parsed ns'"
          by (simp_all split: if_splits)
        have start': "P (f ns)" using const [OF mem Store_const start] .
        show ?thesis
          by (rule "2.IH"(2) [OF True Some Store_const ok])
             (rule store; assumption | rule const; assumption | rule start' | rule run')+
      next
        case (Store f)
        show ?thesis
        proof (cases ts)
          case Nil
          with True Some Store run show ?thesis by simp
        next
          case (Cons v rest)
          with True Some Store run have
            nd: "\<not> dashed v"
            and ch: "\<not> (case choices a of None \<Rightarrow> False | Some cs \<Rightarrow> v \<notin> set cs)"
            and run': "consume p (f v ns) (option_strings a @ seen) extra rest = Parsed ns'"
            by (simp_all split: if_splits)
          from ch have "case choices a of None \<Rightarrow> True | Some cs \<Rightarrow> v \<in> set cs"
            by (simp split: option.splits)
          then have start': "P (f v ns)" using store [OF mem Store _ start] by blast
          show ?thesis
            by (rule "2.IH"(1) [OF True Some Store Cons nd ch])
               (rule store; assumption | rule const; assumption | rule start' | rule run')+
        qed
      qed
    qed
  qed
qed

lemma linux_jdk_choice:
  assumes "plain linux_parser subargs"
    and "parse_args linux_parser linux_defaults lib subargs = Parsed args"
  shows "jdk args \<in> set linux_jdks"
proof -
  from assms have run: "consume linux_parser linux_defaults [] False subargs = Parsed args"
    by (simp add: parse_args_def)
  have start: "jdk linux_defaults \<in> set linux_jdks"
    by (simp add: linux_defaults_def linux_jdks_def)
  show ?thesis
  proof (rule consume_invariant [where P = "\<lambda>ns. jdk ns \<in> set linux_jdks", OF _ _ start run])
    fix a :: "linux_args argument" and f v and ns :: linux_args
    assume "a \<in> set linux_parser" "action a = Store f"
      "case choices a of None \<Rightarrow> True | Some cs \<Rightarrow> v \<in> set cs" "jdk ns \<in> set linux_jdks"
    then show "jdk (f v ns) \<in> set linux_jdks"
      by (auto simp: linux_parser_def parser_shared_def neo4jparserbase_def
          branch_argument_def help_argument_def optional_def)
  next
    fix a :: "linux_args argument" and f and ns :: linux_args
    assume "a \<in> set linux_parser" "action a = Store_const f" "jdk ns \<in> set linux_jdks"
    then show "jdk (f ns) \<in> set linux_jdks"
      by (auto simp: linux_parser_def parser_shared_def neo4jparserbase_def
          branch_argument_def help_argument_def optional_def)
  qed
qed


lemma parse_linux_jdk_example:
  "parse_args linux_parser linux_defaults lib
     [''-u'', ''me'', ''-p'', ''pw'', ''-b'', ''3.0'', ''--jdk'', ''ibmjdk-7'']
     = Parsed (linux_defaults\<lparr>user := ''me'', password := ''pw'', branch := ''3.0'',
                               jdk := ''ibmjdk-7''\<rparr>)"
  by (simp add: parse_args_def plain_def linux_parser_def parser_shared_def neo4jparserbase_def
      branch_argument_def help_argument_def optional_def missing_required_def linux_jdks_def)



text \<open>
  Claim C8. The six jdk names are the choices of \<^verbatim>\<open>--jdk\<close>, the first of them,
  \<^verbatim>\<open>openjdk-8\<close>, is the default; for each of them the Linux build sends a document with
  the property \<^verbatim>\<open>project-default-jdk\<close> whose value is the name between two percent
  signs; and the name the parser reads off a command line is one of the six.
\<close>

theorem jdk_wrapped:
  "linux_jdks = [''openjdk-8'', ''openjdk-7'', ''oracle-jdk-8'', ''oracle-jdk-7'',
                 ''ibmjdk-8'', ''ibmjdk-7'']
   \<and> jdk linux_defaults = ''openjdk-8''
   \<and> (\<forall>j \<in> set linux_jdks.
        start_linux env u pw url p br r g a j =
          send_request env u pw url
            (build_document neo4jlinux_id p br r
               [(''project-default-jdk'', ''%'' @ j @ ''%''), (''maven-goals'', g),
                (''maven-args'', a)])
        \<and> sublist (''\<newline>    <property name=\"project-default-jdk\" value=\"%'' @ j @ ''%\"/>'')
            (build_document neo4jlinux_id p br r
               [(''project-default-jdk'', ''%'' @ j @ ''%''), (''maven-goals'', g),
                (''maven-args'', a)]))
   \<and> (plain linux_parser subargs
        \<and> parse_args linux_parser linux_defaults (argparse_linux env) subargs = Parsed args
      \<longrightarrow> jdk args \<in> set linux_jdks
          \<and> linux env subargs =
              send_request env (user args) (password args) (teamcity args)
                (build_document neo4jlinux_id (personal args) (branch args) (remote args)
                   [(''project-default-jdk'', ''%'' @ jdk args @ ''%''),
                    (''maven-goals'', maven_goals args),
                    (''maven-args'', tc_mvn_args (maven_args args))]))"
proof (intro conjI ballI impI)
  show "linux_jdks = [''openjdk-8'', ''openjdk-7'', ''oracle-jdk-8'', ''oracle-jdk-7'',
                      ''ibmjdk-8'', ''ibmjdk-7'']"
    by (simp add: linux_jdks_def)
  show "jdk linux_defaults = ''openjdk-8''"
    by (simp add: linux_defaults_def linux_jdks_def)
next
  fix j
  show "start_linux env u pw url p br r g a j =
      send_request env u pw url
        (build_document neo4jlinux_id p br r
           [(''project-default-jdk'', ''%'' @ j @ ''%''), (''maven-goals'', g),
            (''maven-args'', a)])"
    by (rule start_linux_eq)
  have "sublist (property_element (''project-default-jdk'', ''%'' @ j @ ''%''))
      (build_document neo4jlinux_id p br r
         [(''project-default-jdk'', ''%'' @ j @ ''%''), (''maven-goals'', g), (''maven-args'', a)])"
    by (rule property_in_document) simp
  then show "sublist (''\<newline>    <property name=\"project-default-jdk\" value=\"%'' @ j @ ''%\"/>'')
      (build_document neo4jlinux_id p br r
         [(''project-default-jdk'', ''%'' @ j @ ''%''), (''maven-goals'', g), (''maven-args'', a)])"
    by (simp add: property_element_def)
next
  assume h: "plain linux_parser subargs
    \<and> parse_args linux_parser linux_defaults (argparse_linux env) subargs = Parsed args"
  then show "jdk args \<in> set linux_jdks"
    using linux_jdk_choice [of subargs "argparse_linux env" args] by simp
  from h show "linux env subargs =
      send_request env (user args) (password args) (teamcity args)
        (build_document neo4jlinux_id (personal args) (branch args) (remote args)
           [(''project-default-jdk'', ''%'' @ jdk args @ ''%''),
            (''maven-goals'', maven_goals args),
            (''maven-args'', tc_mvn_args (maven_args args))])"
    using linux_parsed [of env subargs args] by simp
qed

theorem jdk_wrapped_witness:
  "start_linux (answering started) ''me'' ''pw'' ''https://build.neohq.net'' False ''3.0''
       ''origin'' ''clean verify'' ''-X'' ''openjdk-8'' =
     send_request (answering started) ''me'' ''pw'' ''https://build.neohq.net''
       (build_document ''JonasHaRequests_Neo4jCustom'' False ''3.0'' ''origin''
          [(''project-default-jdk'', ''%openjdk-8%''), (''maven-goals'', ''clean verify''),
           (''maven-args'', ''-X'')])
   \<and> linux (answering started)
         [''-u'', ''me'', ''-p'', ''pw'', ''-b'', ''3.0'', ''--jdk'', ''ibmjdk-7''] =
       send_request (answering started) ''me'' ''pw'' ''https://build.neohq.net''
         (build_document ''JonasHaRequests_Neo4jCustom'' False ''3.0'' ''origin''
            [(''project-default-jdk'', ''%ibmjdk-7%''), (''maven-goals'', ''clean verify''),
             (''maven-args'',
              ''-DfailIfNoTests=false -Dmaven.test.failure.ignore=true --show-version -DrunITs -DskipBrowser'')])"
proof -
  have pl: "plain linux_parser [''-u'', ''me'', ''-p'', ''pw'', ''-b'', ''3.0'', ''--jdk'', ''ibmjdk-7'']"
    by (simp add: plain_def linux_parser_def parser_shared_def neo4jparserbase_def
        branch_argument_def help_argument_def optional_def)
  have m: "''openjdk-8'' \<in> set linux_jdks" by (simp add: linux_jdks_def)
  let ?argv = "[''-u'', ''me'', ''-p'', ''pw'', ''-b'', ''3.0'', ''--jdk'', ''ibmjdk-7'']"
  let ?args = "linux_defaults\<lparr>user := ''me'', password := ''pw'', branch := ''3.0'',
                                jdk := ''ibmjdk-7''\<rparr>"
  have parsed: "parse_args linux_parser linux_defaults (argparse_linux (answering started)) ?argv
      = Parsed ?args"
    by (rule parse_linux_jdk_example)
  note t = jdk_wrapped [where env = "answering started" and subargs = ?argv and args = ?args
      and u = "''me''" and pw = "''pw''" and url = "''https://build.neohq.net''" and p = False
      and br = "''3.0''" and r = "''origin''" and g = "''clean verify''" and a = "''-X''"]
  from t m have one: "start_linux (answering started) ''me'' ''pw'' ''https://build.neohq.net''
       False ''3.0'' ''origin'' ''clean verify'' ''-X'' ''openjdk-8'' =
     send_request (answering started) ''me'' ''pw'' ''https://build.neohq.net''
       (build_document neo4jlinux_id False ''3.0'' ''origin''
          [(''project-default-jdk'', ''%'' @ ''openjdk-8'' @ ''%''),
           (''maven-goals'', ''clean verify''), (''maven-args'', ''-X'')])"
    by blast
  from t pl parsed have two: "linux (answering started) ?argv =
      send_request (answering started) (user ?args) (password ?args) (teamcity ?args)
        (build_document neo4jlinux_id (personal ?args) (branch ?args) (remote ?args)
           [(''project-default-jdk'', ''%'' @ jdk ?args @ ''%''),
            (''maven-goals'', maven_goals ?args),
            (''maven-args'', tc_mvn_args (maven_args ?args))])"
    by blast
  from one two show ?thesis
    by (simp add: linux_defaults_def neo4jlinux_id_def tc_mvn_args_def)
qed

section \<open>What is sent\<close>

lemma urljoin_default:
  "urljoin (urllib (answering resp)) ''https://build.neohq.net'' ''httpAuth/app/rest/buildQueue''
     = Inr ''https://build.neohq.net/httpAuth/app/rest/buildQueue''"
  by code_simp



lemma send_request_cases:
  assumes "urljoin (urllib env) url ''httpAuth/app/rest/buildQueue'' = Inr target"
  shows "send_request env u p url data =
     (case post env (build_request target u p data) of
        Inl e \<Rightarrow> ([Post (build_request target u p data)], Raised e)
      | Inr resp \<Rightarrow>
          if ok resp then
            (case resp_json resp of
               None \<Rightarrow> ([Post (build_request target u p data),
                          Print [PStr ''Build started. View status at'']], Raised ValueError)
             | Some body \<Rightarrow>
                 (case get_webUrl body of
                    Inl e \<Rightarrow> ([Post (build_request target u p data),
                               Print [PStr ''Build started. View status at'']], Raised e)
                  | Inr web_url \<Rightarrow>
                      ([Post (build_request target u p data),
                        Print [PStr ''Build started. View status at''], Print [web_url]],
                       Returned)))
          else
            ([Post (build_request target u p data), Print [PStr ''Could not start build:''],
              Print [PInt (int (status_code resp))],
              Print [case resp_json resp of Some body \<Rightarrow> body
                     | None \<Rightarrow> PStr (resp_text resp)]],
             SystemExit 1))"
  unfolding send_request_def build_request_def headers_def Let_def
  by (simp add: assms)











































section \<open>What is reported\<close>

lemma ok_iff: "ok resp \<longleftrightarrow> \<not> (400 \<le> status_code resp \<and> status_code resp < 600)"
  by (simp add: ok_def)

lemma send_request_failure:
  assumes "urljoin (urllib env) url ''httpAuth/app/rest/buildQueue'' = Inr target"
    and "post env (build_request target u p data) = Inr resp"
    and "400 \<le> status_code resp" "status_code resp < 600"
  shows "send_request env u p url data =
     ([Post (build_request target u p data), Print [PStr ''Could not start build:''],
       Print [PInt (int (status_code resp))],
       Print [case resp_json resp of Some body \<Rightarrow> body | None \<Rightarrow> PStr (resp_text resp)]],
      SystemExit 1)"
  unfolding send_request_cases [OF assms(1)] using assms(2-4) by (simp add: ok_def)

lemma send_request_success:
  assumes "urljoin (urllib env) url ''httpAuth/app/rest/buildQueue'' = Inr target"
    and "post env (build_request target u p data) = Inr resp"
    and "ok resp" "resp_json resp = Some (PDict items)"
  shows "send_request env u p url data =
     ([Post (build_request target u p data), Print [PStr ''Build started. View status at''],
       Print [case map_of items ''webUrl'' of None \<Rightarrow> PNone | Some v \<Rightarrow> v]],
      Returned)"
  unfolding send_request_cases [OF assms(1)] using assms(2-4)
  by (simp split: option.splits)

lemma send_request_not_json:
  assumes "urljoin (urllib env) url ''httpAuth/app/rest/buildQueue'' = Inr target"
    and "post env (build_request target u p data) = Inr resp"
    and "ok resp" "resp_json resp = None"
  shows "send_request env u p url data =
     ([Post (build_request target u p data), Print [PStr ''Build started. View status at'']],
      Raised ValueError)"
  unfolding send_request_cases [OF assms(1)] using assms(2-4) by simp

lemma send_request_raises:
  assumes "urljoin (urllib env) url ''httpAuth/app/rest/buildQueue'' = Inr target"
    and "post env (build_request target u p data) = Inl e"
  shows "send_request env u p url data = ([Post (build_request target u p data)], Raised e)"
  unfolding send_request_cases [OF assms(1)] using assms(2) by simp

lemma post_answering: "post (answering resp) req = Inr resp"
  by (simp add: answering_def)

text \<open>
  Claim C3, as the code has it. For every response with a status from 400 to 599
  (\<^verbatim>\<open>resp.ok\<close> is false for these and no others), the program prints
  \<^verbatim>\<open>Could not start build:\<close>, the numeric status code, then the parsed JSON body if the
  body parses as JSON and the raw response text otherwise, and exits with status 1.
\<close>

theorem failure_reported:
  "(ok resp \<longleftrightarrow> status_code resp < 400 \<or> 600 \<le> status_code resp)
   \<and> (urljoin (urllib env) url ''httpAuth/app/rest/buildQueue'' = Inr target
        \<and> post env (build_request target usr pwd data) = Inr resp
        \<and> 400 \<le> status_code resp \<and> status_code resp < 600
      \<longrightarrow> send_request env usr pwd url data =
            ([Post (build_request target usr pwd data), Print [PStr ''Could not start build:''],
              Print [PInt (int (status_code resp))],
              Print [case resp_json resp of Some body \<Rightarrow> body
                     | None \<Rightarrow> PStr (resp_text resp)]],
             SystemExit 1)
          \<and> exit_status (snd (send_request env usr pwd url data)) = 1)"
proof (intro conjI impI)
  show "ok resp \<longleftrightarrow> status_code resp < 400 \<or> 600 \<le> status_code resp"
    by (auto simp: ok_def)
next
  assume h: "urljoin (urllib env) url ''httpAuth/app/rest/buildQueue'' = Inr target
    \<and> post env (build_request target usr pwd data) = Inr resp
    \<and> 400 \<le> status_code resp \<and> status_code resp < 600"
  then have run: "send_request env usr pwd url data =
      ([Post (build_request target usr pwd data), Print [PStr ''Could not start build:''],
        Print [PInt (int (status_code resp))],
        Print [case resp_json resp of Some body \<Rightarrow> body | None \<Rightarrow> PStr (resp_text resp)]],
       SystemExit 1)"
    using send_request_failure [of env url target usr pwd data resp] by blast
  then show "send_request env usr pwd url data =
      ([Post (build_request target usr pwd data), Print [PStr ''Could not start build:''],
        Print [PInt (int (status_code resp))],
        Print [case resp_json resp of Some body \<Rightarrow> body | None \<Rightarrow> PStr (resp_text resp)]],
       SystemExit 1)" .
  from run show "exit_status (snd (send_request env usr pwd url data)) = 1" by simp
qed

theorem failure_reported_witness:
  "send_request (answering forbidden) ''me'' ''pw'' ''https://build.neohq.net''
       (build_document har_id False ''3.0'' ''origin'' []) =
     ([Post (build_request ''https://build.neohq.net/httpAuth/app/rest/buildQueue'' ''me'' ''pw''
               (build_document har_id False ''3.0'' ''origin'' [])),
       Print [PStr ''Could not start build:''], Print [PInt 403],
       Print [PStr ''Access denied'']],
      SystemExit 1)"
  using failure_reported [where env = "answering forbidden" and resp = forbidden
      and url = "''https://build.neohq.net''"
      and target = "''https://build.neohq.net/httpAuth/app/rest/buildQueue''"
      and usr = "''me''" and pwd = "''pw''"
      and data = "build_document har_id False ''3.0'' ''origin'' []"]
    urljoin_default [of forbidden] post_answering [of forbidden]
  by (simp add: forbidden_def)

text \<open>
  The claim as the specification states it fails twice. A 300 with a JSON body is not a
  2xx, yet \<^verbatim>\<open>resp.ok\<close> holds: the program prints the success message and \<^verbatim>\<open>None\<close>, and
  ends with status 0. A 200 whose body is not JSON prints the success message and then
  raises in \<^verbatim>\<open>resp.json()\<close>, outside any \<^verbatim>\<open>try\<close>: neither the status code nor the raw
  text is printed.
\<close>

theorem failure_not_reported:
  "send_request (answering multiple_choices) ''me'' ''pw'' ''https://build.neohq.net''
       (build_document har_id False ''3.0'' ''origin'' []) =
     ([Post (build_request ''https://build.neohq.net/httpAuth/app/rest/buildQueue'' ''me'' ''pw''
               (build_document har_id False ''3.0'' ''origin'' [])),
       Print [PStr ''Build started. View status at''], Print [PNone]],
      Returned)
   \<and> send_request (answering not_json) ''me'' ''pw'' ''https://build.neohq.net''
       (build_document har_id False ''3.0'' ''origin'' []) =
     ([Post (build_request ''https://build.neohq.net/httpAuth/app/rest/buildQueue'' ''me'' ''pw''
               (build_document har_id False ''3.0'' ''origin'' [])),
       Print [PStr ''Build started. View status at'']],
      Raised ValueError)"
proof
  have "ok multiple_choices" by (simp add: ok_def multiple_choices_def)
  from send_request_success [OF urljoin_default [of multiple_choices]
      post_answering [of multiple_choices] this, of "[(''choices'', PList [])]"]
  show "send_request (answering multiple_choices) ''me'' ''pw'' ''https://build.neohq.net''
       (build_document har_id False ''3.0'' ''origin'' []) =
     ([Post (build_request ''https://build.neohq.net/httpAuth/app/rest/buildQueue'' ''me'' ''pw''
               (build_document har_id False ''3.0'' ''origin'' [])),
       Print [PStr ''Build started. View status at''], Print [PNone]],
      Returned)"
    by (simp add: multiple_choices_def)
next
  have "ok not_json" by (simp add: ok_def not_json_def)
  from send_request_not_json [OF urljoin_default [of not_json] post_answering [of not_json] this]
  show "send_request (answering not_json) ''me'' ''pw'' ''https://build.neohq.net''
       (build_document har_id False ''3.0'' ''origin'' []) =
     ([Post (build_request ''https://build.neohq.net/httpAuth/app/rest/buildQueue'' ''me'' ''pw''
               (build_document har_id False ''3.0'' ''origin'' [])),
       Print [PStr ''Build started. View status at'']],
      Raised ValueError)"
    by (simp add: not_json_def)
qed


lemma TC_init_linux: "TC_init env (''linux'' # rest) = linux env rest"
  by simp

lemma TC_init_har: "TC_init env (''har'' # rest) = har env rest"
  by simp


lemma TC_init_unrecognized:
  assumes "\<not> dashed cmd" "cmd \<notin> {''linux'', ''har'', ''__init__'', ''__class__''}"
    and "inherited env cmd = None"
  shows "TC_init env (cmd # rest) =
     ([Print [PStr ''Unrecognized command:'', PStr cmd], Help Tc_parser], SystemExit 1)"
  using assms by simp

lemma linux_run_example:
  "TC_init (answering resp) [''linux'', ''-u'', ''me'', ''-p'', ''pw'', ''-b'', ''3.0''] =
     send_request (answering resp) ''me'' ''pw'' ''https://build.neohq.net''
       (build_document neo4jlinux_id False ''3.0'' ''origin''
          [(''project-default-jdk'', ''%openjdk-8%''), (''maven-goals'', ''clean verify''),
           (''maven-args'',
            ''-DfailIfNoTests=false -Dmaven.test.failure.ignore=true --show-version -DrunITs -DskipBrowser'')])"
  unfolding TC_init_linux
  using linux_parsed [OF parse_linux_example, of "answering resp"]
  by (simp add: linux_defaults_def linux_jdks_def tc_mvn_args_def)

lemma parse_har_plain_example:
  "parse_args har_parser har_defaults lib [''-u'', ''me'', ''-p'', ''pw'', ''-b'', ''3.0'']
     = Parsed (har_defaults\<lparr>user := ''me'', password := ''pw'', branch := ''3.0''\<rparr>)"
  by (simp add: parse_args_def plain_def har_parser_def parser_shared_def
      branch_argument_def help_argument_def optional_def missing_required_def)

lemma har_plain_run_example:
  "TC_init (answering resp) [''har'', ''-u'', ''me'', ''-p'', ''pw'', ''-b'', ''3.0''] =
     send_request (answering resp) ''me'' ''pw'' ''https://build.neohq.net''
       (build_document har_id False ''3.0'' ''origin'' [])"
  unfolding TC_init_har
  using har_parsed [OF parse_har_plain_example, of "answering resp"]
  by (simp add: har_defaults_def)

text \<open>
  Claim C4. For every 2xx response whose body is a JSON object with a string field
  \<^verbatim>\<open>webUrl\<close>, the program prints the success message and then that URL, and the process
  exits with status 0.
\<close>

theorem success_reported:
  "urljoin (urllib env) url ''httpAuth/app/rest/buildQueue'' = Inr target
   \<and> post env (build_request target usr pwd data) = Inr resp
   \<and> 200 \<le> status_code resp \<and> status_code resp < 300
   \<and> resp_json resp = Some (PDict items) \<and> map_of items ''webUrl'' = Some (PStr web_url)
   \<longrightarrow> send_request env usr pwd url data =
         ([Post (build_request target usr pwd data),
           Print [PStr ''Build started. View status at''], Print [PStr web_url]],
          Returned)
       \<and> (TC_init env argv = send_request env usr pwd url data \<longrightarrow> main env argv = 0)"
proof (intro impI)
  assume h: "urljoin (urllib env) url ''httpAuth/app/rest/buildQueue'' = Inr target
   \<and> post env (build_request target usr pwd data) = Inr resp
   \<and> 200 \<le> status_code resp \<and> status_code resp < 300
   \<and> resp_json resp = Some (PDict items) \<and> map_of items ''webUrl'' = Some (PStr web_url)"
  then have "ok resp" by (simp add: ok_def)
  with h have run: "send_request env usr pwd url data =
      ([Post (build_request target usr pwd data),
        Print [PStr ''Build started. View status at''], Print [PStr web_url]],
       Returned)"
    using send_request_success [of env url target usr pwd data resp items] by simp
  then show "send_request env usr pwd url data =
         ([Post (build_request target usr pwd data),
           Print [PStr ''Build started. View status at''], Print [PStr web_url]],
          Returned)
       \<and> (TC_init env argv = send_request env usr pwd url data \<longrightarrow> main env argv = 0)"
    by (simp add: main_def)
qed

theorem success_reported_witness:
  "TC_init (answering started) [''linux'', ''-u'', ''me'', ''-p'', ''pw'', ''-b'', ''3.0''] =
     ([Post (build_request ''https://build.neohq.net/httpAuth/app/rest/buildQueue'' ''me'' ''pw''
         (build_document neo4jlinux_id False ''3.0'' ''origin''
            [(''project-default-jdk'', ''%openjdk-8%''), (''maven-goals'', ''clean verify''),
             (''maven-args'',
              ''-DfailIfNoTests=false -Dmaven.test.failure.ignore=true --show-version -DrunITs -DskipBrowser'')])),
       Print [PStr ''Build started. View status at''], Print [PStr ''https://x/y'']],
      Returned)
   \<and> main (answering started) [''linux'', ''-u'', ''me'', ''-p'', ''pw'', ''-b'', ''3.0''] = 0"
  using success_reported [where env = "answering started" and resp = started
      and url = "''https://build.neohq.net''"
      and target = "''https://build.neohq.net/httpAuth/app/rest/buildQueue''"
      and usr = "''me''" and pwd = "''pw''"
      and data = "build_document neo4jlinux_id False ''3.0'' ''origin''
            [(''project-default-jdk'', ''%openjdk-8%''), (''maven-goals'', ''clean verify''),
             (''maven-args'',
              ''-DfailIfNoTests=false -Dmaven.test.failure.ignore=true --show-version -DrunITs -DskipBrowser'')]"
      and items = "[(''webUrl'', PStr ''https://x/y'')]" and web_url = "''https://x/y''"
      and argv = "[''linux'', ''-u'', ''me'', ''-p'', ''pw'', ''-b'', ''3.0'']"]
    urljoin_default [of started] post_answering [of started] linux_run_example [of started]
  by (simp add: started_def)

text \<open>
  Claim C10. For every 2xx response whose body is a JSON object without the field
  \<^verbatim>\<open>webUrl\<close>, the program does not fail: it prints the success message and then
  \<^verbatim>\<open>None\<close>, and the process exits with status 0.
\<close>

theorem missing_web_url_prints_none:
  "urljoin (urllib env) url ''httpAuth/app/rest/buildQueue'' = Inr target
   \<and> post env (build_request target usr pwd data) = Inr resp
   \<and> 200 \<le> status_code resp \<and> status_code resp < 300
   \<and> resp_json resp = Some (PDict items) \<and> map_of items ''webUrl'' = None
   \<longrightarrow> send_request env usr pwd url data =
         ([Post (build_request target usr pwd data),
           Print [PStr ''Build started. View status at''], Print [PNone]],
          Returned)
       \<and> (TC_init env argv = send_request env usr pwd url data \<longrightarrow> main env argv = 0)"
proof (intro impI)
  assume h: "urljoin (urllib env) url ''httpAuth/app/rest/buildQueue'' = Inr target
   \<and> post env (build_request target usr pwd data) = Inr resp
   \<and> 200 \<le> status_code resp \<and> status_code resp < 300
   \<and> resp_json resp = Some (PDict items) \<and> map_of items ''webUrl'' = None"
  then have "ok resp" by (simp add: ok_def)
  with h have run: "send_request env usr pwd url data =
      ([Post (build_request target usr pwd data),
        Print [PStr ''Build started. View status at''], Print [PNone]],
       Returned)"
    using send_request_success [of env url target usr pwd data resp items] by simp
  then show "send_request env usr pwd url data =
         ([Post (build_request target usr pwd data),
           Print [PStr ''Build started. View status at''], Print [PNone]],
          Returned)
       \<and> (TC_init env argv = send_request env usr pwd url data \<longrightarrow> main env argv = 0)"
    by (simp add: main_def)
qed

theorem missing_web_url_prints_none_witness:
  "TC_init (answering no_web_url) [''har'', ''-u'', ''me'', ''-p'', ''pw'', ''-b'', ''3.0''] =
     ([Post (build_request ''https://build.neohq.net/httpAuth/app/rest/buildQueue'' ''me'' ''pw''
         (build_document har_id False ''3.0'' ''origin'' [])),
       Print [PStr ''Build started. View status at''], Print [PNone]],
      Returned)
   \<and> main (answering no_web_url) [''har'', ''-u'', ''me'', ''-p'', ''pw'', ''-b'', ''3.0''] = 0"
  using missing_web_url_prints_none [where env = "answering no_web_url" and resp = no_web_url
      and url = "''https://build.neohq.net''"
      and target = "''https://build.neohq.net/httpAuth/app/rest/buildQueue''"
      and usr = "''me''" and pwd = "''pw''"
      and data = "build_document har_id False ''3.0'' ''origin'' []"
      and items = "[(''id'', PInt 7)]"
      and argv = "[''har'', ''-u'', ''me'', ''-p'', ''pw'', ''-b'', ''3.0'']"]
    urljoin_default [of no_web_url] post_answering [of no_web_url]
    har_plain_run_example [of no_web_url]
  by (simp add: no_web_url_def)

section \<open>Exit statuses\<close>

lemma main_parse_error_linux:
  assumes "parse_args linux_parser linux_defaults (argparse_linux env) subargs = Parse_error"
  shows "main env (''linux'' # subargs) = 2"
  by (simp add: main_def linux_def assms parser_exit_def)

lemma main_parse_error_har:
  assumes "parse_args har_parser har_defaults (argparse_har env) subargs = Parse_error"
  shows "main env (''har'' # subargs) = 2"
  by (simp add: main_def har_def assms parser_exit_def)

lemma main_parse_error_command:
  assumes "parse_command env [arg] = Parse_error"
  shows "main env (arg # rest) = 2"
  using assms by (simp add: main_def parser_exit_def)

lemma main_no_arguments: "main env [] = 2"
  by (simp add: main_def parser_exit_def)

lemma parse_linux_nothing:
  "parse_args linux_parser linux_defaults lib [] = Parse_error"
  by (simp add: parse_args_def plain_def linux_parser_def parser_shared_def neo4jparserbase_def
      branch_argument_def help_argument_def optional_def missing_required_def)

lemma parse_linux_no_password:
  "parse_args linux_parser linux_defaults lib [''-u'', ''me'', ''-b'', ''3.0''] = Parse_error"
  by (simp add: parse_args_def plain_def linux_parser_def parser_shared_def neo4jparserbase_def
      branch_argument_def help_argument_def optional_def missing_required_def)

text \<open>
  Claim C5, as the code has it. The exit status is 0 when the server accepts the request
  (an ok response whose body is a JSON object); it is 1 for an unrecognized command and
  for every failure of the HTTP exchange (an exception raised by \<^verbatim>\<open>requests.post\<close>, a
  response with a status from 400 to 599, an ok response whose body is not JSON); and it
  is 2, not 1, for every failure of argument parsing, at the top level (no command) and in
  the parser of a command (a missing required flag): \<^verbatim>\<open>argparse\<close> ends the process itself.
\<close>

theorem exit_statuses:
  "main env [] = 2
   \<and> (parse_command env [arg] = Parse_error \<longrightarrow> main env (arg # rest) = 2)
   \<and> (parse_args linux_parser linux_defaults (argparse_linux env) subargs = Parse_error
        \<longrightarrow> main env (''linux'' # subargs) = 2)
   \<and> (parse_args har_parser har_defaults (argparse_har env) subargs = Parse_error
        \<longrightarrow> main env (''har'' # subargs) = 2)
   \<and> (\<not> dashed cmd \<and> cmd \<notin> {''linux'', ''har'', ''__init__'', ''__class__''}
        \<and> inherited env cmd = None
        \<longrightarrow> main env (cmd # rest) = 1)
   \<and> (TC_init env argv = send_request env usr pwd url data
        \<and> urljoin (urllib env) url ''httpAuth/app/rest/buildQueue'' = Inr target
        \<longrightarrow> (post env (build_request target usr pwd data) = Inl e \<longrightarrow> main env argv = 1)
          \<and> (post env (build_request target usr pwd data) = Inr resp
               \<and> 400 \<le> status_code resp \<and> status_code resp < 600
               \<longrightarrow> main env argv = 1)
          \<and> (post env (build_request target usr pwd data) = Inr resp
               \<and> ok resp \<and> resp_json resp = None
               \<longrightarrow> main env argv = 1)
          \<and> (post env (build_request target usr pwd data) = Inr resp
               \<and> ok resp \<and> resp_json resp = Some (PDict items)
               \<longrightarrow> main env argv = 0))"
proof (intro conjI impI)
  show "main env [] = 2" by (rule main_no_arguments)
next
  assume "parse_command env [arg] = Parse_error"
  then show "main env (arg # rest) = 2" by (rule main_parse_error_command)
next
  assume "parse_args linux_parser linux_defaults (argparse_linux env) subargs = Parse_error"
  then show "main env (''linux'' # subargs) = 2" by (rule main_parse_error_linux)
next
  assume "parse_args har_parser har_defaults (argparse_har env) subargs = Parse_error"
  then show "main env (''har'' # subargs) = 2" by (rule main_parse_error_har)
next
  assume "\<not> dashed cmd \<and> cmd \<notin> {''linux'', ''har'', ''__init__'', ''__class__''}
    \<and> inherited env cmd = None"
  then show "main env (cmd # rest) = 1"
    using TC_init_unrecognized [of cmd env rest] by (simp add: main_def)
next
  assume run: "TC_init env argv = send_request env usr pwd url data
    \<and> urljoin (urllib env) url ''httpAuth/app/rest/buildQueue'' = Inr target"
  {
    assume "post env (build_request target usr pwd data) = Inl e"
    with run show "main env argv = 1"
      using send_request_raises [of env url target usr pwd data e] by (simp add: main_def)
  next
    assume "post env (build_request target usr pwd data) = Inr resp
      \<and> 400 \<le> status_code resp \<and> status_code resp < 600"
    with run show "main env argv = 1"
      using send_request_failure [of env url target usr pwd data resp] by (simp add: main_def)
  next
    assume "post env (build_request target usr pwd data) = Inr resp
      \<and> ok resp \<and> resp_json resp = None"
    with run show "main env argv = 1"
      using send_request_not_json [of env url target usr pwd data resp] by (simp add: main_def)
  next
    assume "post env (build_request target usr pwd data) = Inr resp
      \<and> ok resp \<and> resp_json resp = Some (PDict items)"
    with run show "main env argv = 0"
      using send_request_success [of env url target usr pwd data resp items]
      by (simp add: main_def)
  }
qed

theorem exit_statuses_witness:
  "main (answering started) [''bogus''] = 1
   \<and> main (answering started) [''linux'', ''-u'', ''me'', ''-b'', ''3.0''] = 2
   \<and> main (answering forbidden) [''linux'', ''-u'', ''me'', ''-p'', ''pw'', ''-b'', ''3.0''] = 1
   \<and> main (answering started) [''linux'', ''-u'', ''me'', ''-p'', ''pw'', ''-b'', ''3.0''] = 0"
proof -
  let ?argv = "[''linux'', ''-u'', ''me'', ''-p'', ''pw'', ''-b'', ''3.0'']"
  let ?data = "build_document neo4jlinux_id False ''3.0'' ''origin''
          [(''project-default-jdk'', ''%openjdk-8%''), (''maven-goals'', ''clean verify''),
           (''maven-args'',
            ''-DfailIfNoTests=false -Dmaven.test.failure.ignore=true --show-version -DrunITs -DskipBrowser'')]"
  let ?target = "''https://build.neohq.net/httpAuth/app/rest/buildQueue''"
  have bogus: "\<not> dashed ''bogus'' \<and> ''bogus'' \<notin> {''linux'', ''har'', ''__init__'', ''__class__''}
      \<and> inherited (answering started) ''bogus'' = None"
    by (simp add: answering_def)
  have one: "main (answering started) [''bogus''] = 1"
    by (rule exit_statuses [where env = "answering started" and cmd = "''bogus''" and rest = "[]",
          THEN conjunct2, THEN conjunct2, THEN conjunct2, THEN conjunct2, THEN conjunct1,
          THEN mp, OF bogus])
  have two: "main (answering started) [''linux'', ''-u'', ''me'', ''-b'', ''3.0''] = 2"
    by (rule exit_statuses [where env = "answering started"
          and subargs = "[''-u'', ''me'', ''-b'', ''3.0'']",
          THEN conjunct2, THEN conjunct2, THEN conjunct1, THEN mp, OF parse_linux_no_password])
  have bad: "400 \<le> status_code forbidden \<and> status_code forbidden < 600"
    by (simp add: forbidden_def)
  have three: "main (answering forbidden) ?argv = 1"
    by (rule exit_statuses [where env = "answering forbidden" and argv = ?argv,
          THEN conjunct2, THEN conjunct2, THEN conjunct2, THEN conjunct2, THEN conjunct2,
          THEN mp, OF conjI [OF linux_run_example urljoin_default],
          THEN conjunct2, THEN conjunct1, THEN mp, OF conjI [OF post_answering bad]])
  have good: "ok started \<and> resp_json started = Some (PDict [(''webUrl'', PStr ''https://x/y'')])"
    by (simp add: started_def ok_def)
  have four: "main (answering started) ?argv = 0"
    by (rule exit_statuses [where env = "answering started" and argv = ?argv,
          THEN conjunct2, THEN conjunct2, THEN conjunct2, THEN conjunct2, THEN conjunct2,
          THEN mp, OF conjI [OF linux_run_example urljoin_default],
          THEN conjunct2, THEN conjunct2, THEN conjunct2, THEN mp,
          OF conjI [OF post_answering good]])
  from one two three four show ?thesis by (intro conjI)
qed

text \<open>
  The claim as the specification states it fails for argument parsing: \<^verbatim>\<open>tc.py\<close> with no
  argument, \<^verbatim>\<open>tc.py linux\<close> with no flag and \<^verbatim>\<open>tc.py linux -u me -b 3.0\<close> without the
  required password all end with status 2.
\<close>

theorem parse_failure_exits_2:
  "main (answering started) [] = 2
   \<and> main (answering started) [''linux''] = 2
   \<and> main (answering started) [''linux'', ''-u'', ''me'', ''-b'', ''3.0''] = 2"
  by (simp add: main_no_arguments main_parse_error_linux parse_linux_nothing
      parse_linux_no_password)


section \<open>Dispatch\<close>





section \<open>Unescaped values\<close>

lemma branch_in_document:
  "sublist (''branchName=\"'' @ br @ ''\"'') (build_document b p br r items)"
proof -
  have "build_document b p br r items =
      (''\<newline><build personal=\"'' @ (if p then ''true'' else ''false'') @ ''\" '')
      @ (''branchName=\"'' @ br @ ''\"'')
      @ (''>\<newline>  <buildType id=\"'' @ b
         @ ''\"/>\<newline>  <comment><text>Triggered from CLI</text></comment>\<newline>  <properties>''
         @ concat (map property_element ((''remote'', r) # (''branch'', br) # items))
         @ ''\<newline>  </properties>\<newline></build>\<newline>'')"
    by (simp add: build_document_def)
  then show ?thesis by (simp only: sublist_appendI)
qed

lemma value_in_document:
  "sublist (''<property name=\"'' @ k @ ''\" value=\"'' @ v @ ''\"/>'')
     (build_document b p br r [(k, v)])"
proof -
  have "sublist (property_element (k, v)) (build_document b p br r [(k, v)])"
    by (rule property_in_document) simp
  moreover have "sublist (''<property name=\"'' @ k @ ''\" value=\"'' @ v @ ''\"/>'')
      (property_element (k, v))"
  proof -
    have "property_element (k, v)
        = ''\<newline>    '' @ (''<property name=\"'' @ k @ ''\" value=\"'' @ v @ ''\"/>'') @ []"
      by (simp add: property_element_def)
    then show ?thesis by (simp only: sublist_appendI)
  qed
  ultimately show ?thesis by (rule sublist_order.order_trans [rotated])
qed

lemma corrupt_amp:
  "map_sum id well_formed (request_xml har_id False ''pr/1234&foo'' ''origin'' None) = Inr False"
  by code_simp

lemma corrupt_lt:
  "map_sum id well_formed (request_xml har_id False ''a<b'' ''origin'' None) = Inr False"
  by code_simp

lemma corrupt_quote:
  "map_sum id well_formed (request_xml har_id False ''a\"b'' ''origin'' None) = Inr False"
  by code_simp

lemma corrupt_property:
  "map_sum id well_formed
     (case dict_as_properties [(''maven-args'', ''-Dfilter=a<b'')] of
        Inl e \<Rightarrow> Inl e
      | Inr props \<Rightarrow> request_xml neo4jlinux_id False ''3.0'' ''origin'' (Some props)) = Inr False"
  by code_simp

lemma sound_document:
  "map_sum id well_formed (request_xml har_id False ''3.0'' ''origin'' None) = Inr True"
  by code_simp

text \<open>
  Claim C9. The request builder copies the branch and every property value into the
  document as they are, with no escaping; so for some values that hold \<^verbatim>\<open><\<close>, \<^verbatim>\<open>&\<close> or a
  double quote the rendered text is not well-formed XML: the branches \<^verbatim>\<open>pr/1234&foo\<close>,
  \<^verbatim>\<open>a<b\<close> and \<^verbatim>\<open>a"b\<close>, and the property value \<^verbatim>\<open>-Dfilter=a<b\<close>. (The branch \<^verbatim>\<open>3.0\<close>
  gives a well-formed document.)
\<close>

theorem unescaped_values_corrupt:
  "request_xml b p br r (Some (concat (map property_element items)))
     = Inr (build_document b p br r items)
   \<and> sublist (''branchName=\"'' @ br @ ''\"'') (build_document b p br r items)
   \<and> dict_as_properties [(k, v)] = Inr (property_element (k, v))
   \<and> sublist (''<property name=\"'' @ k @ ''\" value=\"'' @ v @ ''\"/>'')
        (build_document b p br r [(k, v)])
   \<and> map_sum id well_formed (request_xml har_id False ''pr/1234&foo'' ''origin'' None)
       = Inr False
   \<and> map_sum id well_formed (request_xml har_id False ''a<b'' ''origin'' None) = Inr False
   \<and> map_sum id well_formed (request_xml har_id False ''a\"b'' ''origin'' None) = Inr False
   \<and> map_sum id well_formed
        (case dict_as_properties [(''maven-args'', ''-Dfilter=a<b'')] of
           Inl e \<Rightarrow> Inl e
         | Inr props \<Rightarrow> request_xml neo4jlinux_id False ''3.0'' ''origin'' (Some props))
       = Inr False
   \<and> map_sum id well_formed (request_xml har_id False ''3.0'' ''origin'' None) = Inr True"
proof (intro conjI)
  show "dict_as_properties [(k, v)] = Inr (property_element (k, v))"
    by (simp add: dict_as_properties_eq)
qed (rule request_xml_items branch_in_document value_in_document corrupt_amp corrupt_lt
      corrupt_quote corrupt_property sound_document)+

end
